theory Spec2Isabelle
  imports Main
begin

section \<open>JavaScript values\<close>

text \<open>
  The values that travel in a frame are what \<^verbatim>\<open>JSON.parse\<close> yields, plus \<^verbatim>\<open>undefined\<close>
  (the value of a property that is absent). Numbers are the integers and \<^verbatim>\<open>NaN\<close>: the
  request ids of tRPC are integer counters, and \<^verbatim>\<open>NaN\<close> is the one number that
  \<^verbatim>\<open>isNaN\<close> singles out. An object is the list of its own properties, each key once.
\<close>

datatype js_number = NaN | Num int

datatype jsval =
    JUndefined
  | JNull
  | JBool bool
  | JNumber js_number
  | JString string
  | JArray "jsval list"
  | JObject "(string \<times> jsval) list"

datatype js_type = T_undefined | T_object | T_boolean | T_number | T_string

fun typeof :: "jsval \<Rightarrow> js_type" where
  "typeof JUndefined = T_undefined"
| "typeof JNull = T_object"
| "typeof (JBool b) = T_boolean"
| "typeof (JNumber n) = T_number"
| "typeof (JString s) = T_string"
| "typeof (JArray xs) = T_object"
| "typeof (JObject ps) = T_object"

fun isArray :: "jsval \<Rightarrow> bool" where
  "isArray (JArray xs) = True"
| "isArray v = False"

text \<open>\<^verbatim>\<open>!obj\<close> is true exactly on the falsy values.\<close>

fun falsy :: "jsval \<Rightarrow> bool" where
  "falsy JUndefined = True"
| "falsy JNull = True"
| "falsy (JBool b) = (\<not> b)"
| "falsy (JNumber NaN) = True"
| "falsy (JNumber (Num n)) = (n = 0)"
| "falsy (JString s) = (s = [])"
| "falsy (JArray xs) = False"
| "falsy (JObject ps) = False"

fun isNaN :: "jsval \<Rightarrow> bool" where
  "isNaN (JNumber NaN) = True"
| "isNaN v = False"

text \<open>Reading a property, as the destructuring \<^verbatim>\<open>const { method, params, id, jsonrpc } = obj\<close> does.\<close>

fun getprop :: "jsval \<Rightarrow> string \<Rightarrow> jsval" where
  "getprop (JObject ps) k = (case map_of ps k of None \<Rightarrow> JUndefined | Some v \<Rightarrow> v)"
| "getprop v k = JUndefined"

text \<open>
  \<^verbatim>\<open>ToString\<close>, which template literals and property keys apply to a value. Integers
  print in decimal (as JavaScript prints them below \<open>10^21\<close>), an array prints its elements
  separated by commas with \<^verbatim>\<open>null\<close> and \<^verbatim>\<open>undefined\<close> elements left empty.
\<close>

definition digit_char :: "nat \<Rightarrow> char" where
  "digit_char d = ''0123456789'' ! d"

fun decimal :: "nat \<Rightarrow> string" where
  "decimal n = (if n < 10 then [digit_char n] else decimal (n div 10) @ [digit_char (n mod 10)])"

declare decimal.simps [simp del]

definition Number_toString :: "int \<Rightarrow> string" where
  "Number_toString i = (if i < 0 then CHR ''-'' # decimal (nat (- i)) else decimal (nat i))"

fun join_comma :: "string list \<Rightarrow> string" where
  "join_comma [] = []"
| "join_comma [s] = s"
| "join_comma (s # t # ss) = s @ CHR '','' # join_comma (t # ss)"

fun ToString :: "jsval \<Rightarrow> string"
  and ToString_elements :: "jsval list \<Rightarrow> string list" where
  "ToString JUndefined = ''undefined''"
| "ToString JNull = ''null''"
| "ToString (JBool b) = (if b then ''true'' else ''false'')"
| "ToString (JNumber NaN) = ''NaN''"
| "ToString (JNumber (Num i)) = Number_toString i"
| "ToString (JString s) = s"
| "ToString (JArray xs) = join_comma (ToString_elements xs)"
| "ToString (JObject ps) = ''[object Object]''"
| "ToString_elements [] = []"
| "ToString_elements (x # xs) =
     (if x = JNull \<or> x = JUndefined then [] else ToString x) # ToString_elements xs"

section \<open>Errors\<close>

datatype trpc_code = PARSE_ERROR | BAD_REQUEST | INTERNAL_SERVER_ERROR | OTHER_CODE string

text \<open>
  What a \<^verbatim>\<open>throw\<close> carries: a plain \<^verbatim>\<open>Error\<close> with its message, or a \<^verbatim>\<open>TRPCError\<close>
  with its code, its message (when one was given) and its cause (when one was given).
\<close>

datatype js_error =
    Error string
  | TRPCError trpc_code "string option" "js_error option"

text \<open>
  \<^verbatim>\<open>getTRPCErrorFromUnknown\<close> of \<^verbatim>\<open>@trpc/server\<close>: a \<^verbatim>\<open>TRPCError\<close> is returned as it is,
  any other error is wrapped as an internal server error that keeps its message.
\<close>

fun getTRPCErrorFromUnknown :: "js_error \<Rightarrow> js_error" where
  "getTRPCErrorFromUnknown (TRPCError c m cause) = TRPCError c m cause"
| "getTRPCErrorFromUnknown (Error m) = TRPCError INTERNAL_SERVER_ERROR (Some m) (Some (Error m))"

section \<open>The envelope codec (data-channel-handler.ts)\<close>

datatype procedure_type = Query | Mutation | Subscription

text \<open>
  \<^verbatim>\<open>TRPCClientOutgoingMessage\<close>: a request \<^verbatim>\<open>{ id, jsonrpc, method, params: { input, path } }\<close>
  or a stop \<^verbatim>\<open>{ id, jsonrpc, method: "subscription.stop" }\<close>.
\<close>

datatype client_message =
    RequestMessage (msg_id: jsval) (msg_jsonrpc: jsval) (msg_method: procedure_type)
      (msg_input: jsval) (msg_path: string)
  | StopMessage (msg_id: jsval) (msg_jsonrpc: jsval)

text \<open>
  The assertion functions return \<open>Some e\<close> when they throw \<open>e\<close> and \<open>None\<close> when they
  return; the two that narrow their argument to a type return the narrowed value.
\<close>

definition assertIsObject :: "jsval \<Rightarrow> js_error option" where
  "assertIsObject obj =
     (if typeof obj \<noteq> T_object \<or> isArray obj \<or> falsy obj
      then Some (Error ''Not an object'') else None)"

definition assertIsProcedureType :: "jsval \<Rightarrow> js_error + procedure_type" where
  "assertIsProcedureType obj =
     (if obj = JString ''query'' then Inr Query
      else if obj = JString ''subscription'' then Inr Subscription
      else if obj = JString ''mutation'' then Inr Mutation
      else Inl (Error ''Invalid procedure type''))"

definition assertIsRequestId :: "jsval \<Rightarrow> js_error option" where
  "assertIsRequestId obj =
     (if obj \<noteq> JNull \<and> typeof obj = T_number \<and> isNaN obj \<and> typeof obj \<noteq> T_string
      then Some (Error ''Invalid request id'') else None)"

definition assertIsString :: "jsval \<Rightarrow> js_error + string" where
  "assertIsString obj = (case obj of JString s \<Rightarrow> Inr s | _ \<Rightarrow> Inl (Error ''Invalid string''))"

definition assertIsJSONRPC2OrUndefined :: "jsval \<Rightarrow> js_error option" where
  "assertIsJSONRPC2OrUndefined obj =
     (if typeof obj \<noteq> T_undefined \<and> obj \<noteq> JString ''2.0''
      then Some (Error ''Must be JSONRPC 2.0'') else None)"

text \<open>
  \<^verbatim>\<open>parseMessage(obj, transformer)\<close>. The transformer's \<^verbatim>\<open>input.deserialize\<close> is the
  parameter \<open>deserialize\<close>; it may throw.
\<close>

definition parseMessage :: "jsval \<Rightarrow> (jsval \<Rightarrow> js_error + jsval) \<Rightarrow> js_error + client_message" where
  "parseMessage obj deserialize =
     (case assertIsObject obj of Some e \<Rightarrow> Inl e | None \<Rightarrow>
     (let method = getprop obj ''method''; params = getprop obj ''params'';
          id = getprop obj ''id''; jsonrpc = getprop obj ''jsonrpc'' in
     (case assertIsRequestId id of Some e \<Rightarrow> Inl e | None \<Rightarrow>
     (case assertIsJSONRPC2OrUndefined jsonrpc of Some e \<Rightarrow> Inl e | None \<Rightarrow>
     (if method = JString ''subscription.stop'' then Inr (StopMessage id jsonrpc) else
     (case assertIsProcedureType method of Inl e \<Rightarrow> Inl e | Inr type \<Rightarrow>
     (case assertIsObject params of Some e \<Rightarrow> Inl e | None \<Rightarrow>
     (let rawInput = getprop params ''input''; path = getprop params ''path'' in
     (case assertIsString path of Inl e \<Rightarrow> Inl e | Inr p \<Rightarrow>
     (case deserialize rawInput of Inl e \<Rightarrow> Inl e | Inr input \<Rightarrow>
      Inr (RequestMessage id jsonrpc type input p)))))))))))"

section \<open>The responder (data-channel-handler.ts)\<close>

datatype ready_state = RS_connecting | RS_open | RS_closing | RS_closed

text \<open>
  \<^verbatim>\<open>TRPCResponseMessage<TData, TError>\<close>: \<^verbatim>\<open>{ id, jsonrpc, result }\<close> with a result of type
  \<^verbatim>\<open>data\<close>, \<^verbatim>\<open>started\<close> or \<^verbatim>\<open>stopped\<close>, or \<^verbatim>\<open>{ id, jsonrpc, error }\<close>. A property that is
  not written is \<open>JUndefined\<close>.
\<close>

datatype 'd result = ResultData 'd | ResultStarted | ResultStopped

datatype ('d, 'e) response_message =
    ResultResponse (resp_id: jsval) (resp_jsonrpc: jsval) (resp_result: "'d result")
  | ErrorResponse (resp_id: jsval) (resp_jsonrpc: jsval) (resp_error: 'e)

text \<open>
  What \<^verbatim>\<open>callProcedure\<close> gives: it throws, or it returns a plain value or an observable.
  An observable is known by a number; with it come the events it emits while
  \<^verbatim>\<open>subscribe\<close> runs (none, for the emitter-backed observables of the fixtures). Events it
  emits later reach the observer through \<open>observer_next\<close>, \<open>observer_error\<close> and
  \<open>observer_complete\<close> below.
\<close>

datatype stream_event = StreamNext jsval | StreamError js_error | StreamComplete

datatype proc_value = Plain jsval | Observable nat "stream_event list"

datatype proc_outcome = Returned proc_value | Threw js_error

text \<open>
  \<^verbatim>\<open>router.getErrorShape({ error, type, path, input, ctx })\<close> belongs to the router; the
  shape it builds is kept as its arguments (\<open>None\<close> for the type \<^verbatim>\<open>"unknown"\<close> and for an
  undefined path).
\<close>

datatype error_shape =
  ErrorShape js_error "procedure_type option" "string option" jsval

text \<open>
  What the handler does to the outside, in order: \<^verbatim>\<open>respond\<close> called with a response
  (which it transforms, serialises and hands to \<^verbatim>\<open>dataChannel.send\<close>), a subscription
  unsubscribed, \<^verbatim>\<open>opts.onError\<close> called (it is optional: the event stands for
  \<^verbatim>\<open>opts.onError?.(...)\<close>). Each call is taken to return.
\<close>

datatype handler_effect =
    Respond "(proc_value, error_shape) response_message"
  | Unsubscribe nat
  | OnError js_error "procedure_type option" "string option" jsval

record handler_opts =
  callProcedure :: "string \<Rightarrow> jsval \<Rightarrow> procedure_type \<Rightarrow> proc_outcome"
  ctxPromise :: "js_error option"
  deserialize :: "jsval \<Rightarrow> js_error + jsval"

text \<open>
  The state of one \<^verbatim>\<open>onOpen\<close>: the \<^verbatim>\<open>clientSubscriptions\<close> map in insertion order, the
  \<^verbatim>\<open>readyState\<close> of the data channel, and the effects so far. In \<open>handler_opts\<close>,
  \<open>ctxPromise\<close> is \<open>Some cause\<close> when the context promise rejects with \<open>cause\<close>.
\<close>

record handler_state =
  clientSubscriptions :: "(jsval \<times> nat) list"
  rx_readyState :: ready_state
  effects :: "handler_effect list"

text \<open>
  The keys of a \<^verbatim>\<open>Map\<close> are compared with SameValueZero: numbers, strings and the other
  primitives by value (\<^verbatim>\<open>NaN\<close> equal to itself), objects and arrays by reference. The id
  of each message is parsed afresh, so an object or array id is the same as no key already
  in the map.
\<close>

fun sameValueZero :: "jsval \<Rightarrow> jsval \<Rightarrow> bool" where
  "sameValueZero (JArray xs) v = False"
| "sameValueZero (JObject ps) v = False"
| "sameValueZero u v = (u = v)"

definition Map_get :: "(jsval \<times> 'v) list \<Rightarrow> jsval \<Rightarrow> 'v option" where
  "Map_get m k = map_option snd (find (\<lambda>(k', v). sameValueZero k k') m)"

definition Map_has :: "(jsval \<times> 'v) list \<Rightarrow> jsval \<Rightarrow> bool" where
  "Map_has m k = (Map_get m k \<noteq> None)"

definition Map_delete :: "(jsval \<times> 'v) list \<Rightarrow> jsval \<Rightarrow> (jsval \<times> 'v) list" where
  "Map_delete m k = filter (\<lambda>(k', v). \<not> sameValueZero k k') m"

definition Map_set :: "(jsval \<times> 'v) list \<Rightarrow> jsval \<Rightarrow> 'v \<Rightarrow> (jsval \<times> 'v) list" where
  "Map_set m k v =
     (if Map_has m k then map (\<lambda>(k', v'). if sameValueZero k k' then (k', v) else (k', v')) m
      else m @ [(k, v)])"

definition respond ::
  "(proc_value, error_shape) response_message \<Rightarrow> handler_state \<Rightarrow> handler_state" where
  "respond untransformedJSON s = s\<lparr>effects := effects s @ [Respond untransformedJSON]\<rparr>"

definition stopSubscription :: "nat \<Rightarrow> jsval \<Rightarrow> jsval \<Rightarrow> handler_state \<Rightarrow> handler_state" where
  "stopSubscription subscription rid jsonrpc s =
     respond (ResultResponse rid jsonrpc ResultStopped)
       (s\<lparr>effects := effects s @ [Unsubscribe subscription]\<rparr>)"

text \<open>The observer that \<^verbatim>\<open>handleRequest\<close> subscribes with.\<close>

definition observer_next :: "jsval \<Rightarrow> jsval \<Rightarrow> jsval \<Rightarrow> handler_state \<Rightarrow> handler_state" where
  "observer_next rid jsonrpc data s = respond (ResultResponse rid jsonrpc (ResultData (Plain data))) s"

definition observer_error ::
  "jsval \<Rightarrow> jsval \<Rightarrow> procedure_type \<Rightarrow> string \<Rightarrow> jsval \<Rightarrow> js_error \<Rightarrow> handler_state \<Rightarrow> handler_state" where
  "observer_error rid jsonrpc type path input err s =
     (let error = getTRPCErrorFromUnknown err in
      respond (ErrorResponse rid jsonrpc (ErrorShape error (Some type) (Some path) input))
        (s\<lparr>effects := effects s @ [OnError error (Some type) (Some path) input]\<rparr>))"

definition observer_complete :: "jsval \<Rightarrow> jsval \<Rightarrow> handler_state \<Rightarrow> handler_state" where
  "observer_complete rid jsonrpc s = respond (ResultResponse rid jsonrpc ResultStopped) s"

fun observer_event ::
  "jsval \<Rightarrow> jsval \<Rightarrow> procedure_type \<Rightarrow> string \<Rightarrow> jsval \<Rightarrow> handler_state \<Rightarrow> stream_event \<Rightarrow> handler_state" where
  "observer_event rid jsonrpc type path input s (StreamNext data) = observer_next rid jsonrpc data s"
| "observer_event rid jsonrpc type path input s (StreamError err) =
     observer_error rid jsonrpc type path input err s"
| "observer_event rid jsonrpc type path input s StreamComplete = observer_complete rid jsonrpc s"

text \<open>
  The \<^verbatim>\<open>catch (cause)\<close> block of \<^verbatim>\<open>handleRequest\<close>: the error goes to \<^verbatim>\<open>opts.onError\<close>
  and to the client as the error response of this request.
\<close>

definition handleRequest_catch ::
  "jsval \<Rightarrow> jsval \<Rightarrow> procedure_type \<Rightarrow> string \<Rightarrow> jsval \<Rightarrow> js_error \<Rightarrow> handler_state \<Rightarrow> handler_state" where
  "handleRequest_catch rid jsonrpc type path input cause s =
     (let error = getTRPCErrorFromUnknown cause in
      respond (ErrorResponse rid jsonrpc (ErrorShape error (Some type) (Some path) input))
        (s\<lparr>effects := effects s @ [OnError error (Some type) (Some path) input]\<rparr>))"

text \<open>
  \<^verbatim>\<open>handleRequest(msg)\<close>, run from its call to the settling of its promise. The result is
  the rejection of the promise (\<open>None\<close> when it resolves) and the state. The awaits are
  taken in one piece: what other handlers do in between is not interleaved here.
\<close>

definition handleRequest ::
  "handler_opts \<Rightarrow> client_message \<Rightarrow> handler_state \<Rightarrow> js_error option \<times> handler_state" where
  "handleRequest opts msg s =
     (let id = msg_id msg; jsonrpc = msg_jsonrpc msg in
      if id = JNull then (Some (TRPCError BAD_REQUEST (Some ''`id` is required'') None), s)
      else (case msg of
        StopMessage _ _ \<Rightarrow>
          (let s1 = (case Map_get (clientSubscriptions s) id of
                       Some sub \<Rightarrow> stopSubscription sub id jsonrpc s
                     | None \<Rightarrow> s)
           in (None, s1\<lparr>clientSubscriptions := Map_delete (clientSubscriptions s1) id\<rparr>))
      | RequestMessage _ _ type input path \<Rightarrow>
          (case ctxPromise opts of
             Some cause \<Rightarrow> (None, handleRequest_catch id jsonrpc type path input cause s)
           | None \<Rightarrow>
          (case callProcedure opts path input type of
             Threw cause \<Rightarrow> (None, handleRequest_catch id jsonrpc type path input cause s)
           | Returned result \<Rightarrow>
          (if type \<noteq> Subscription
           then (None, respond (ResultResponse id jsonrpc (ResultData result)) s)
           else (case result of
             Plain v \<Rightarrow>
               (None, handleRequest_catch id jsonrpc type path input
                  (TRPCError INTERNAL_SERVER_ERROR
                     (Some (''Subscription '' @ path @ '' did not return an observable'')) None) s)
           | Observable sub emitted \<Rightarrow>
               (let s1 = foldl (observer_event id jsonrpc type path input) s emitted in
                if rx_readyState s1 \<noteq> RS_open
                then (None, s1\<lparr>effects := effects s1 @ [Unsubscribe sub]\<rparr>)
                else if Map_has (clientSubscriptions s1) id
                then (None, handleRequest_catch id jsonrpc type path input
                        (TRPCError BAD_REQUEST (Some (''Duplicate id '' @ ToString id)) None)
                        (stopSubscription sub id jsonrpc s1))
                else (None, respond (ResultResponse id jsonrpc ResultStarted)
                        (s1\<lparr>clientSubscriptions := Map_set (clientSubscriptions s1) id sub\<rparr>)))))))))"

text \<open>
  The \<^verbatim>\<open>message\<close> listener. Its argument is what \<^verbatim>\<open>JSON.parse\<close> gives on the frame's
  text: \<open>Inl e\<close> when it throws \<open>e\<close>. \<^verbatim>\<open>msgs.map(parseMessage)\<close> parses every member
  before \<^verbatim>\<open>.map(handleRequest)\<close> starts the first handler, and stops at the first member
  that throws. The handlers run in the order of the batch; \<^verbatim>\<open>Promise.all\<close> rejects with
  the first rejection, which the \<^verbatim>\<open>catch\<close> block reports.
\<close>

fun parse_all :: "(jsval \<Rightarrow> js_error + jsval) \<Rightarrow> jsval list \<Rightarrow> js_error + client_message list" where
  "parse_all d [] = Inr []"
| "parse_all d (raw # raws) =
     (case parseMessage raw d of
        Inl e \<Rightarrow> Inl e
      | Inr m \<Rightarrow> (case parse_all d raws of Inl e \<Rightarrow> Inl e | Inr ms \<Rightarrow> Inr (m # ms)))"

fun handle_all ::
  "handler_opts \<Rightarrow> client_message list \<Rightarrow> handler_state \<Rightarrow> js_error option list \<times> handler_state" where
  "handle_all opts [] s = ([], s)"
| "handle_all opts (m # ms) s =
     (let (r, s1) = handleRequest opts m s; (rs, s2) = handle_all opts ms s1 in (r # rs, s2))"

fun first_rejection :: "js_error option list \<Rightarrow> js_error option" where
  "first_rejection [] = None"
| "first_rejection (None # rs) = first_rejection rs"
| "first_rejection (Some e # rs) = Some e"

definition message_catch :: "js_error \<Rightarrow> handler_state \<Rightarrow> handler_state" where
  "message_catch cause s =
     (let error = TRPCError PARSE_ERROR None (Some cause) in
      respond (ErrorResponse JNull JUndefined (ErrorShape error None None JUndefined)) s)"

definition batch_members :: "jsval \<Rightarrow> jsval list" where
  "batch_members msgJSON = (case msgJSON of JArray xs \<Rightarrow> xs | _ \<Rightarrow> [msgJSON])"

definition handler_message_listener :: "handler_opts \<Rightarrow> js_error + jsval \<Rightarrow> handler_state \<Rightarrow> handler_state" where
  "handler_message_listener opts parsed s =
     (case parsed of
        Inl cause \<Rightarrow> message_catch cause s
      | Inr msgJSON \<Rightarrow>
          (case parse_all (deserialize opts) (batch_members msgJSON) of
             Inl cause \<Rightarrow> message_catch cause s
           | Inr msgs \<Rightarrow>
               (let (rs, s1) = handle_all opts msgs s in
                case first_rejection rs of None \<Rightarrow> s1 | Some cause \<Rightarrow> message_catch cause s1)))"

section \<open>The caller (data-channel-link.ts)\<close>

text \<open>
  A data channel and a callback set (\<^verbatim>\<open>TCallbacks\<close>) are objects compared by reference;
  each is known by a number. The callbacks belong to the caller of \<^verbatim>\<open>request\<close>: calling
  one is recorded in the trace, in order, next to the frames sent and the channels closed.
  A callback is opaque: the model records the call and takes the callback to return
  without calling into the client.
\<close>

type_synonym conn = nat

datatype link_state = Open | Connecting | Closed

record operation =
  op_id :: int
  op_type :: procedure_type
  op_input :: jsval
  op_path :: string

record TRequest =
  req_dataChannel :: conn
  req_type :: procedure_type
  req_callbacks :: nat
  req_op :: operation

text \<open>
  \<^verbatim>\<open>TRPCClientIncomingMessage\<close>, as the listener tells the two kinds apart: a message with
  a \<^verbatim>\<open>method\<close> property is a request of the responder, any other is a response.
\<close>

datatype incoming_message =
    IncomingRequest string
  | IncomingResponse "(jsval, jsval) response_message"

text \<open>
  The text of a frame: \<^verbatim>\<open>JSON.stringify\<close> of one envelope or of the array of envelopes.
  The trace holds the calls of \<^verbatim>\<open>send\<close> and \<^verbatim>\<open>close\<close> on a channel, each taken to return,
  and the calls of the callbacks.
\<close>

datatype frame = SingleFrame client_message | BatchFrame "client_message list"

datatype link_effect =
    Send conn frame
  | ChannelClose conn
  | CallbackNext nat "(jsval, jsval) response_message"
  | CallbackError nat js_error
  | CallbackComplete nat

text \<open>
  \<^verbatim>\<open>pendingRequests\<close> is an object without prototype, used as a table: its keys are
  property keys, so an id is looked up under \<open>ToString\<close> of it. The list holds the
  properties in the order \<^verbatim>\<open>Object.entries\<close> gives them: array indices (the decimal
  numerals below \<open>2^32 - 1\<close>) ascending, then every other key in the order of insertion.
\<close>

definition digit_value :: "char \<Rightarrow> nat option" where
  "digit_value c =
     (let n = (of_char c :: nat) in if 48 \<le> n \<and> n \<le> 57 then Some (n - 48) else None)"

fun nat_of_digits :: "nat \<Rightarrow> string \<Rightarrow> nat option" where
  "nat_of_digits acc [] = Some acc"
| "nat_of_digits acc (c # cs) =
     (case digit_value c of None \<Rightarrow> None | Some d \<Rightarrow> nat_of_digits (10 * acc + d) cs)"

definition array_index :: "string \<Rightarrow> nat option" where
  "array_index k =
     (case nat_of_digits 0 k of
        None \<Rightarrow> None
      | Some n \<Rightarrow> if decimal n = k \<and> int n < 4294967295 then Some n else None)"

definition key_before :: "string \<Rightarrow> string \<Rightarrow> bool" where
  "key_before k k' =
     (case array_index k of
        None \<Rightarrow> False
      | Some a \<Rightarrow> (case array_index k' of None \<Rightarrow> True | Some b \<Rightarrow> a < b))"

fun insert_property :: "(string \<times> 'v) list \<Rightarrow> string \<Rightarrow> 'v \<Rightarrow> (string \<times> 'v) list" where
  "insert_property [] k v = [(k, v)]"
| "insert_property ((k', v') # ps) k v =
     (if key_before k k' then (k, v) # (k', v') # ps else (k', v') # insert_property ps k v)"

text \<open>\<^verbatim>\<open>obj[k] = v\<close>: an existing property keeps its place, a new one is inserted.\<close>

definition Object_set :: "(string \<times> 'v) list \<Rightarrow> string \<Rightarrow> 'v \<Rightarrow> (string \<times> 'v) list" where
  "Object_set ps k v =
     (if map_of ps k \<noteq> None then map (\<lambda>(k', v'). if k' = k then (k', v) else (k', v')) ps
      else insert_property ps k v)"

definition Object_delete :: "(string \<times> 'v) list \<Rightarrow> string \<Rightarrow> (string \<times> 'v) list" where
  "Object_delete ps k = filter (\<lambda>(k', v). k' \<noteq> k) ps"

definition Object_values :: "(string \<times> 'v) list \<Rightarrow> 'v list" where
  "Object_values ps = map snd ps"

text \<open>
  The variables that \<^verbatim>\<open>createDataChannelClient\<close> closes over, with the \<^verbatim>\<open>readyState\<close> of
  each channel (the browser sets it) and the trace. \<open>dispatchTimer\<close> is true while a
  timeout is scheduled.
\<close>

record link =
  opts_dataChannel :: conn
  readyState :: "conn \<Rightarrow> ready_state"
  outgoing :: "client_message list"
  pendingRequests :: "(string \<times> TRequest) list"
  dispatchTimer :: bool
  state :: link_state
  activeConnection :: conn
  trace :: "link_effect list"

definition dispatch :: "link \<Rightarrow> link" where
  "dispatch s = (if state s \<noteq> Open \<or> dispatchTimer s then s else s\<lparr>dispatchTimer := True\<rparr>)"

text \<open>The function that \<^verbatim>\<open>dispatch\<close> hands to \<^verbatim>\<open>setTimeout\<close>, run when the timer fires.\<close>

definition dispatchTimer_callback :: "link \<Rightarrow> link" where
  "dispatchTimer_callback s =
     (let s1 = s\<lparr>dispatchTimer := False\<rparr> in
      if readyState s1 (activeConnection s1) \<noteq> RS_open then s1
      else
        (let s2 =
           (if length (outgoing s1) = 1
            then s1\<lparr>outgoing := butlast (outgoing s1),
                    trace := trace s1 @ [Send (activeConnection s1) (SingleFrame (last (outgoing s1)))]\<rparr>
            else s1\<lparr>trace := trace s1 @ [Send (activeConnection s1) (BatchFrame (outgoing s1))]\<rparr>)
         in s2\<lparr>outgoing := []\<rparr>))"

definition hasPendingRequests :: "conn \<Rightarrow> link \<Rightarrow> bool" where
  "hasPendingRequests c s = list_ex (\<lambda>p. req_dataChannel p = c) (Object_values (pendingRequests s))"

definition closeIfNoPending :: "conn \<Rightarrow> link \<Rightarrow> link" where
  "closeIfNoPending c s =
     (if \<not> hasPendingRequests c s then s\<lparr>trace := trace s @ [ChannelClose c]\<rparr> else s)"

definition onOpen :: "link \<Rightarrow> link" where
  "onOpen s = (if opts_dataChannel s \<noteq> activeConnection s then s else dispatch (s\<lparr>state := Open\<rparr>))"

definition handleIncomingRequest :: "string \<Rightarrow> link \<Rightarrow> link" where
  "handleIncomingRequest req_method s =
     (if req_method = ''reconnect'' \<and> opts_dataChannel s = activeConnection s
      then (if state s = Open then closeIfNoPending (opts_dataChannel s) s else s)
      else s)"

fun is_stopped :: "('d, 'e) response_message \<Rightarrow> bool" where
  "is_stopped (ResultResponse i j ResultStopped) = True"
| "is_stopped r = False"

definition handleIncomingResponse :: "(jsval, jsval) response_message \<Rightarrow> link \<Rightarrow> link" where
  "handleIncomingResponse data s =
     (case (if resp_id data \<noteq> JNull then map_of (pendingRequests s) (ToString (resp_id data))
            else None) of
        None \<Rightarrow> s
      | Some req \<Rightarrow>
          (let s1 = s\<lparr>trace := trace s @ [CallbackNext (req_callbacks req) data]\<rparr>;
               s2 =
                 (if req_dataChannel req \<noteq> activeConnection s1
                     \<and> opts_dataChannel s1 = activeConnection s1
                  then
                    (let oldWs = req_dataChannel req in
                     closeIfNoPending oldWs
                       (s1\<lparr>pendingRequests :=
                          map (\<lambda>(k, r). if k = ToString (resp_id data)
                                         then (k, r\<lparr>req_dataChannel := activeConnection s1\<rparr>)
                                         else (k, r))
                            (pendingRequests s1)\<rparr>))
                  else s1)
           in if is_stopped data \<and> opts_dataChannel s2 = activeConnection s2
              then s2\<lparr>trace := trace s2 @ [CallbackComplete (req_callbacks req)]\<rparr>
              else s2))"

text \<open>
  The \<^verbatim>\<open>message\<close> listener, on the message that \<^verbatim>\<open>JSON.parse\<close> gives: first the branch
  on \<^verbatim>\<open>"method" in msg\<close> (\<open>client_message_handle\<close>), then the check that closes a channel
  left without pending requests.
\<close>

definition client_message_handle :: "incoming_message \<Rightarrow> link \<Rightarrow> link" where
  "client_message_handle msg s =
     (case msg of
        IncomingRequest req_method \<Rightarrow> handleIncomingRequest req_method s
      | IncomingResponse data \<Rightarrow> handleIncomingResponse data s)"

definition client_message_listener :: "incoming_message \<Rightarrow> link \<Rightarrow> link" where
  "client_message_listener msg s =
     (let s1 = client_message_handle msg s
      in if opts_dataChannel s1 \<noteq> activeConnection s1 \<or> state s1 = Closed
         then closeIfNoPending (opts_dataChannel s1) s1
         else s1)"

text \<open>
  The \<^verbatim>\<open>close\<close> listener: the loop runs over the entries as they stand when it starts.
\<close>

fun close_loop :: "(string \<times> TRequest) list \<Rightarrow> link \<Rightarrow> link" where
  "close_loop [] s = s"
| "close_loop ((key, req) # entries) s =
     (if req_dataChannel req \<noteq> opts_dataChannel s then close_loop entries s
      else if state s = Closed
      then close_loop entries
             (s\<lparr>pendingRequests := Object_delete (pendingRequests s) key,
                trace := trace s @ [CallbackComplete (req_callbacks req)]\<rparr>)
      else close_loop entries
             (s\<lparr>pendingRequests := Object_delete (pendingRequests s) key,
                trace := trace s @
                  [CallbackError (req_callbacks req) (Error ''DataChannel closed prematurely'')]\<rparr>))"

definition client_close_listener :: "link \<Rightarrow> link" where
  "client_close_listener s = close_loop (pendingRequests s) s"

definition request :: "operation \<Rightarrow> nat \<Rightarrow> link \<Rightarrow> link" where
  "request op callbacks s =
     (let id = op_id op;
          envelope = RequestMessage (JNumber (Num id)) JUndefined (op_type op) (op_input op) (op_path op);
          s1 = s\<lparr>pendingRequests :=
                  Object_set (pendingRequests s) (ToString (JNumber (Num id)))
                    \<lparr>req_dataChannel = activeConnection s, req_type = op_type op,
                     req_callbacks = callbacks, req_op = op\<rparr>\<rparr>;
          s2 = s1\<lparr>outgoing := outgoing s1 @ [envelope]\<rparr>
      in dispatch s2)"

text \<open>The function that \<^verbatim>\<open>request(op, callbacks)\<close> returns (an \<^verbatim>\<open>UnsubscribeFn\<close>).\<close>

definition request_unsubscribe :: "operation \<Rightarrow> link \<Rightarrow> link" where
  "request_unsubscribe op s =
     (let id = op_id op;
          callbacks = map_option req_callbacks (map_of (pendingRequests s) (ToString (JNumber (Num id))));
          s1 = s\<lparr>pendingRequests := Object_delete (pendingRequests s) (ToString (JNumber (Num id)))\<rparr>;
          s2 = s1\<lparr>outgoing := filter (\<lambda>msg. msg_id msg \<noteq> JNumber (Num id)) (outgoing s1)\<rparr>;
          s3 = (case callbacks of
                  None \<Rightarrow> s2
                | Some c \<Rightarrow> s2\<lparr>trace := trace s2 @ [CallbackComplete c]\<rparr>)
      in if readyState s3 (activeConnection s3) = RS_open \<and> op_type op = Subscription
         then dispatch (s3\<lparr>outgoing := outgoing s3 @ [StopMessage (JNumber (Num id)) JUndefined]\<rparr>)
         else s3)"

definition close :: "link \<Rightarrow> link" where
  "close s = (let s1 = s\<lparr>state := Closed\<rparr> in closeIfNoPending (activeConnection s1) s1)"

definition createDataChannelClient :: "conn \<Rightarrow> (conn \<Rightarrow> ready_state) \<Rightarrow> link" where
  "createDataChannelClient dataChannel rs =
     (let s = \<lparr>opts_dataChannel = dataChannel, readyState = rs, outgoing = [],
               pendingRequests = [], dispatchTimer = False, state = Connecting,
               activeConnection = dataChannel, trace = []\<rparr>
      in if readyState s (activeConnection s) = RS_open then onOpen s else s)"

text \<open>
  What can happen to a client, one event at a time: the channel fires \<^verbatim>\<open>open\<close>, delivers a
  message or fires \<^verbatim>\<open>close\<close>, the browser changes the \<^verbatim>\<open>readyState\<close>, the scheduled
  timer fires, the caller calls \<^verbatim>\<open>request\<close>, a cancellation function or \<^verbatim>\<open>close\<close>. A run
  is a client created on a channel and taken through a list of events.
\<close>

datatype client_event =
    ChannelOpen
  | ChannelMessage incoming_message
  | ChannelClosed
  | ChannelState "conn \<Rightarrow> ready_state"
  | TimerFired
  | Request operation nat
  | Cancel operation
  | CloseClient

fun client_step :: "link \<Rightarrow> client_event \<Rightarrow> link" where
  "client_step s ChannelOpen = onOpen s"
| "client_step s (ChannelMessage msg) = client_message_listener msg s"
| "client_step s ChannelClosed = client_close_listener s"
| "client_step s (ChannelState rs) = s\<lparr>readyState := rs\<rparr>"
| "client_step s TimerFired = (if dispatchTimer s then dispatchTimer_callback s else s)"
| "client_step s (Request op callbacks) = request op callbacks s"
| "client_step s (Cancel op) = request_unsubscribe op s"
| "client_step s CloseClient = close s"

definition client_run :: "conn \<Rightarrow> (conn \<Rightarrow> ready_state) \<Rightarrow> client_event list \<Rightarrow> link" where
  "client_run dataChannel rs events =
     foldl client_step (createDataChannelClient dataChannel rs) events"

text \<open>
  What holds of a client after every run: its channel is the active connection, the keys
  of the table are distinct, and every pending request was made on the active connection.
\<close>

definition client_inv :: "link \<Rightarrow> bool" where
  "client_inv s \<longleftrightarrow>
     opts_dataChannel s = activeConnection s
     \<and> distinct (map fst (pendingRequests s))
     \<and> list_all (\<lambda>req. req_dataChannel req = activeConnection s)
         (Object_values (pendingRequests s))"

section \<open>The fixtures (__fixtures__/router.ts and the tests)\<close>

text \<open>
  The router of the tests: \<^verbatim>\<open>testQuery\<close> answers \<^verbatim>\<open>{ hello: input.id }\<close> and refuses an
  input without a string \<^verbatim>\<open>id\<close>, \<^verbatim>\<open>testSubscription\<close> returns an observable,
  \<^verbatim>\<open>addToTestSubscription\<close> returns its input; no other procedure exists. No context
  factory and the default transformer.
\<close>

definition appRouter :: handler_opts where
  "appRouter = \<lparr>
     callProcedure = (\<lambda>path input type.
       if path = ''testQuery'' \<and> type = Query
       then (case getprop input ''id'' of
               JString x \<Rightarrow> Returned (Plain (JObject [(''hello'', JString x)]))
             | _ \<Rightarrow> Threw (TRPCError BAD_REQUEST None None))
       else if path = ''testSubscription'' \<and> type = Subscription
       then Returned (Observable 1 [])
       else if path = ''addToTestSubscription'' \<and> type = Mutation
       then Returned (Plain input)
       else Threw (TRPCError (OTHER_CODE ''NOT_FOUND'') None None)),
     ctxPromise = None,
     deserialize = Inr \<rparr>"

definition testQuery_request :: jsval where
  "testQuery_request =
     JObject [(''id'', JNumber (Num 1)), (''method'', JString ''query''),
       (''params'', JObject [(''path'', JString ''testQuery''),
          (''input'', JObject [(''id'', JString ''world'')])])]"

definition bogus_request :: jsval where
  "bogus_request = JObject [(''id'', JNumber (Num 2)), (''method'', JString ''bogus'')]"

definition handler_init :: handler_state where
  "handler_init = \<lparr>clientSubscriptions = [], rx_readyState = RS_open, effects = []\<rparr>"

text \<open>A responder that holds a subscription under id 7, its channel open or closing.\<close>

definition handler_subscribed :: "ready_state \<Rightarrow> handler_state" where
  "handler_subscribed rs =
     \<lparr>clientSubscriptions = [(JNumber (Num 7), 0)], rx_readyState = rs, effects = []\<rparr>"

definition testSubscription_input :: jsval where
  "testSubscription_input = JObject [(''channel'', JString ''test'')]"

text \<open>
  The caller of the tests: a client on data channel 0, which is open; a query with id 1
  and callbacks 5, a subscription with id 2 and callbacks 6, queued by \<^verbatim>\<open>request\<close> and in
  flight after the flush that follows; the query queued on a channel that is closing when
  the timer fires; and the subscription after its cancellation function was called and the
  stop envelope flushed.
\<close>

definition testQuery_op :: operation where
  "testQuery_op = \<lparr>op_id = 1, op_type = Query,
     op_input = JObject [(''id'', JString ''world'')], op_path = ''testQuery''\<rparr>"

definition testSubscription_op :: operation where
  "testSubscription_op = \<lparr>op_id = 2, op_type = Subscription,
     op_input = testSubscription_input, op_path = ''testSubscription''\<rparr>"

definition open_client :: link where
  "open_client = createDataChannelClient 0 (\<lambda>c. RS_open)"

definition query_queued :: link where
  "query_queued = request testQuery_op 5 open_client"

definition query_in_flight :: link where
  "query_in_flight = dispatchTimer_callback query_queued"

definition both_queued :: link where
  "both_queued = request testQuery_op 5 (request testSubscription_op 6 open_client)"

definition query_queued_closing :: link where
  "query_queued_closing = query_queued\<lparr>readyState := \<lambda>c. RS_closing\<rparr>"

definition subscription_in_flight :: link where
  "subscription_in_flight = dispatchTimer_callback (request testSubscription_op 6 open_client)"

definition subscription_cancelled :: link where
  "subscription_cancelled =
     dispatchTimer_callback (request_unsubscribe testSubscription_op subscription_in_flight)"

text \<open>
  A query is sent, then the channel closes while the client is still open: the close
  listener takes the request out of the table and calls \<^verbatim>\<open>error\<close> on its callbacks.
\<close>

definition query_closed_prematurely :: link where
  "query_closed_prematurely =
     client_run 0 (\<lambda>c. RS_open)
       [Request testQuery_op 5, TimerFired, ChannelState (\<lambda>c. RS_closed), ChannelClosed]"

text \<open>
  A subscription is sent, the client is closed (\<^verbatim>\<open>state\<close> is \<^verbatim>\<open>"closed"\<close>, the channel stays
  open since the request is pending), and the subscription is cancelled.
\<close>

definition subscription_cancelled_closed :: link where
  "subscription_cancelled_closed =
     request_unsubscribe testSubscription_op (close subscription_in_flight)"

text \<open>Two responses: the stopped response for id 2, and a parse error report (id null).\<close>

definition stopped_response :: "(jsval, jsval) response_message" where
  "stopped_response = ResultResponse (JNumber (Num 2)) JUndefined ResultStopped"

definition parse_error_report :: "(jsval, jsval) response_message" where
  "parse_error_report =
     ErrorResponse JNull JUndefined (JObject [(''code'', JNumber (Num (- 32700)))])"

text \<open>The parts of a trace: the callbacks called, the channels closed.\<close>

fun is_callback :: "link_effect \<Rightarrow> bool" where
  "is_callback (Send c f) = False"
| "is_callback (ChannelClose c) = False"
| "is_callback e = True"

fun is_close :: "link_effect \<Rightarrow> bool" where
  "is_close (ChannelClose c) = True"
| "is_close e = False"

section \<open>Properties of the codec\<close>

lemmas codec_defs = parseMessage_def assertIsObject_def assertIsRequestId_def
  assertIsJSONRPC2OrUndefined_def assertIsProcedureType_def assertIsString_def

lemma assertIsRequestId_throws_iff:
  "assertIsRequestId obj \<noteq> None \<longleftrightarrow> obj = JNumber NaN"
  by (cases obj rule: isNaN.cases) (simp_all add: assertIsRequestId_def)

lemma parseMessage_rejects_unknown_method:
  assumes "getprop obj ''method'' \<noteq> JString ''subscription.stop''"
    and "getprop obj ''method'' \<noteq> JString ''query''"
    and "getprop obj ''method'' \<noteq> JString ''subscription''"
    and "getprop obj ''method'' \<noteq> JString ''mutation''"
  shows "\<exists>e. parseMessage obj d = Inl e"
  using assms by (simp add: codec_defs Let_def split: option.splits)

lemma parseMessage_rejects_params:
  assumes "getprop obj ''method'' \<noteq> JString ''subscription.stop''"
    and "\<forall>ps. getprop obj ''params'' \<noteq> JObject ps"
  shows "\<exists>e. parseMessage obj d = Inl e"
proof -
  have "assertIsObject (getprop obj ''params'') \<noteq> None"
    using assms(2) by (cases "getprop obj ''params''") (simp_all add: assertIsObject_def)
  then show ?thesis
    using assms(1) by (auto simp: parseMessage_def Let_def split: option.splits sum.splits)
qed

text \<open>
  C9. The codec is to accept an envelope only if its id is a string, a number or null.
  \<^verbatim>\<open>assertIsRequestId\<close> throws on \<^verbatim>\<open>NaN\<close> alone (the lemma above), so an envelope
  whose id is a boolean is accepted: the stop envelope \<^verbatim>\<open>{ "id": true, "method":
  "subscription.stop" }\<close> parses to a stop message with the id \<^verbatim>\<open>true\<close>. Unknown methods and
  params that are not an object are rejected, as the two lemmas above show.
\<close>

theorem parseMessage_accepts_boolean_id:
  "parseMessage (JObject [(''id'', JBool True), (''method'', JString ''subscription.stop'')]) d
     = Inr (StopMessage (JBool True) JUndefined)"
  by (simp add: codec_defs)

section \<open>Properties of the responder\<close>

lemma parse_all_fails:
  "raw \<in> set raws \<Longrightarrow> parseMessage raw d = Inl e \<Longrightarrow> \<exists>cause. parse_all d raws = Inl cause"
  by (induction raws) (auto split: sum.splits)

lemma listener_parse_failure:
  "parse_all (deserialize opts) (batch_members msgJSON) = Inl cause \<Longrightarrow>
   handler_message_listener opts (Inr msgJSON) s = message_catch cause s"
  by (simp add: handler_message_listener_def)

text \<open>
  C1, as the code has it. When a member of the frame fails \<^verbatim>\<open>parseMessage\<close>, the listener
  handles no member at all: the state is the one before the frame, with one response
  added, the parse error report with id null.
\<close>

theorem batch_parse_failure_aborts_whole_batch:
  assumes "raw \<in> set (batch_members msgJSON)"
    and "parseMessage raw (deserialize opts) = Inl e"
  shows "\<exists>cause. handler_message_listener opts (Inr msgJSON) s =
           s\<lparr>effects := effects s @
             [Respond (ErrorResponse JNull JUndefined
                (ErrorShape (TRPCError PARSE_ERROR None (Some cause)) None None JUndefined))]\<rparr>"
proof -
  from assms obtain cause where "parse_all (deserialize opts) (batch_members msgJSON) = Inl cause"
    using parse_all_fails by blast
  then have "handler_message_listener opts (Inr msgJSON) s = message_catch cause s"
    by (rule listener_parse_failure)
  then show ?thesis by (auto simp: message_catch_def respond_def)
qed

theorem batch_parse_failure_aborts_whole_batch_witness:
  "bogus_request \<in> set (batch_members (JArray [testQuery_request, bogus_request]))
   \<and> parseMessage bogus_request (deserialize appRouter) = Inl (Error ''Invalid procedure type'')
   \<and> (\<exists>cause. handler_message_listener appRouter (Inr (JArray [testQuery_request, bogus_request]))
                 handler_init =
         handler_init\<lparr>effects := effects handler_init @
           [Respond (ErrorResponse JNull JUndefined
              (ErrorShape (TRPCError PARSE_ERROR None (Some cause)) None None JUndefined))]\<rparr>)"
proof -
  have m: "bogus_request \<in> set (batch_members (JArray [testQuery_request, bogus_request]))"
    by (simp add: batch_members_def)
  have p: "parseMessage bogus_request (deserialize appRouter) = Inl (Error ''Invalid procedure type'')"
    by (simp add: codec_defs bogus_request_def)
  from batch_parse_failure_aborts_whole_batch [OF m p, of handler_init] m p
  show ?thesis by blast
qed

text \<open>
  C1, as the specification states it, fails: \<^verbatim>\<open>testQuery_request\<close> is well formed and,
  sent alone, is answered with its data; sent in a batch with a member of unknown method,
  it is not handled, and the only response is the parse error report.
\<close>

theorem batch_parse_failure_counterexample:
  "parseMessage testQuery_request (deserialize appRouter) =
     Inr (RequestMessage (JNumber (Num 1)) JUndefined Query
            (JObject [(''id'', JString ''world'')]) ''testQuery'')
   \<and> effects (handler_message_listener appRouter (Inr (JArray [testQuery_request])) handler_init) =
       [Respond (ResultResponse (JNumber (Num 1)) JUndefined
          (ResultData (Plain (JObject [(''hello'', JString ''world'')]))))]
   \<and> effects (handler_message_listener appRouter
        (Inr (JArray [testQuery_request, bogus_request])) handler_init) =
       [Respond (ErrorResponse JNull JUndefined
          (ErrorShape (TRPCError PARSE_ERROR None (Some (Error ''Invalid procedure type'')))
             None None JUndefined))]"
  by (simp add: handler_message_listener_def batch_members_def codec_defs appRouter_def
      testQuery_request_def bogus_request_def handler_init_def message_catch_def respond_def
      handleRequest_def)

lemma observer_events_keep:
  "clientSubscriptions (foldl (observer_event rid jsonrpc type path input) s evs) =
     clientSubscriptions s
   \<and> rx_readyState (foldl (observer_event rid jsonrpc type path input) s evs) = rx_readyState s"
proof (induction evs arbitrary: s)
  case Nil
  show ?case by simp
next
  case (Cons ev evs)
  show ?case
    by (cases ev)
      (simp_all add: Cons observer_next_def observer_error_def observer_complete_def
        respond_def Let_def)
qed

lemma observer_events_effects:
  "\<exists>new. effects (foldl (observer_event rid jsonrpc type path input) s evs) = effects s @ new
     \<and> Respond (ResultResponse i j ResultStarted) \<notin> set new"
proof (induction evs arbitrary: s)
  case Nil
  show ?case by simp
next
  case (Cons ev evs)
  obtain new where new: "effects (foldl (observer_event rid jsonrpc type path input)
        (observer_event rid jsonrpc type path input s ev) evs) =
      effects (observer_event rid jsonrpc type path input s ev) @ new"
    "Respond (ResultResponse i j ResultStarted) \<notin> set new"
    using Cons by blast
  have "\<exists>first. effects (observer_event rid jsonrpc type path input s ev) = effects s @ first
      \<and> Respond (ResultResponse i j ResultStarted) \<notin> set first"
    by (cases ev)
      (simp_all add: observer_next_def observer_error_def observer_complete_def respond_def
        Let_def)
  then obtain first where first:
    "effects (observer_event rid jsonrpc type path input s ev) = effects s @ first"
    "Respond (ResultResponse i j ResultStarted) \<notin> set first"
    by blast
  have "effects (foldl (observer_event rid jsonrpc type path input) s (ev # evs)) =
      effects s @ (first @ new)"
    using new(1) first(1) by simp
  moreover have "Respond (ResultResponse i j ResultStarted) \<notin> set (first @ new)"
    using new(2) first(2) by simp
  ultimately show ?case by blast
qed

text \<open>
  A subscription request whose procedure returned an observable: \<open>s1\<close> is the state once
  the observer is subscribed. The \<^verbatim>\<open>readyState\<close> of the channel is looked at first: if it
  is not open the new subscription is unsubscribed and nothing is sent. The check for an
  entry under the id comes second.
\<close>

lemma subscription_request_outcome:
  assumes "rid \<noteq> JNull"
    and "ctxPromise opts = None"
    and "callProcedure opts path input Subscription = Returned (Observable sub emitted)"
  shows "handleRequest opts (RequestMessage rid jsonrpc Subscription input path) s =
     (let s1 = foldl (observer_event rid jsonrpc Subscription path input) s emitted;
          duplicate = TRPCError BAD_REQUEST (Some (''Duplicate id '' @ ToString rid)) None in
      (None,
       if rx_readyState s \<noteq> RS_open then s1\<lparr>effects := effects s1 @ [Unsubscribe sub]\<rparr>
       else if Map_has (clientSubscriptions s) rid
       then s1\<lparr>effects := effects s1 @
              [Unsubscribe sub,
               Respond (ResultResponse rid jsonrpc ResultStopped),
               OnError duplicate (Some Subscription) (Some path) input,
               Respond (ErrorResponse rid jsonrpc
                 (ErrorShape duplicate (Some Subscription) (Some path) input))]\<rparr>
       else s1\<lparr>clientSubscriptions := Map_set (clientSubscriptions s) rid sub,
               effects := effects s1 @ [Respond (ResultResponse rid jsonrpc ResultStarted)]\<rparr>))"
  using assms
  by (simp add: handleRequest_def Let_def observer_events_keep handleRequest_catch_def
      stopSubscription_def respond_def)

text \<open>
  C3. A subscription request whose procedure returned an observable, on a channel that is
  open once the observer is subscribed. If the id has an entry in \<^verbatim>\<open>clientSubscriptions\<close>,
  the new subscription is unsubscribed, a stopped response and the duplicate-id
  \<^verbatim>\<open>BAD_REQUEST\<close> error response are sent for the request, and the map is left as it was.
  If the id has no entry, the subscription is stored under it and a started response is
  sent. So the subscription is stored, and a started response is among what the request
  adds to the effects, only when the id has no entry.
\<close>

theorem duplicate_subscription_id:
  assumes "rid \<noteq> JNull"
    and "ctxPromise opts = None"
    and "callProcedure opts path input Subscription = Returned (Observable sub emitted)"
    and "rx_readyState s = RS_open"
  shows "handleRequest opts (RequestMessage rid jsonrpc Subscription input path) s =
     (let s1 = foldl (observer_event rid jsonrpc Subscription path input) s emitted;
          duplicate = TRPCError BAD_REQUEST (Some (''Duplicate id '' @ ToString rid)) None in
      (None,
       if Map_has (clientSubscriptions s) rid
       then s1\<lparr>effects := effects s1 @
              [Unsubscribe sub,
               Respond (ResultResponse rid jsonrpc ResultStopped),
               OnError duplicate (Some Subscription) (Some path) input,
               Respond (ErrorResponse rid jsonrpc
                 (ErrorShape duplicate (Some Subscription) (Some path) input))]\<rparr>
       else s1\<lparr>clientSubscriptions := Map_set (clientSubscriptions s) rid sub,
               effects := effects s1 @ [Respond (ResultResponse rid jsonrpc ResultStarted)]\<rparr>))
   \<and> clientSubscriptions (snd (handleRequest opts (RequestMessage rid jsonrpc Subscription input path) s)) =
       (if Map_has (clientSubscriptions s) rid then clientSubscriptions s
        else Map_set (clientSubscriptions s) rid sub)
   \<and> (Respond (ResultResponse rid jsonrpc ResultStarted)
        \<in> set (drop (length (effects s))
             (effects (snd (handleRequest opts (RequestMessage rid jsonrpc Subscription input path) s)))))
      = (\<not> Map_has (clientSubscriptions s) rid)"
proof -
  let ?s1 = "foldl (observer_event rid jsonrpc Subscription path input) s emitted"
  obtain new where new: "effects ?s1 = effects s @ new"
    "Respond (ResultResponse rid jsonrpc ResultStarted) \<notin> set new"
    using observer_events_effects by blast
  show ?thesis
    using subscription_request_outcome [OF assms(1-3), of jsonrpc s] assms(4) new
    by (simp add: Let_def observer_events_keep)
qed

theorem duplicate_subscription_id_witness:
  "JNumber (Num 7) \<noteq> JNull
   \<and> ctxPromise appRouter = None
   \<and> callProcedure appRouter ''testSubscription'' testSubscription_input Subscription =
       Returned (Observable 1 [])
   \<and> rx_readyState (handler_subscribed RS_open) = RS_open
   \<and> rx_readyState handler_init = RS_open
   \<and> handleRequest appRouter
       (RequestMessage (JNumber (Num 7)) JUndefined Subscription testSubscription_input
          ''testSubscription'')
       (handler_subscribed RS_open) =
     (None,
      \<lparr>clientSubscriptions = [(JNumber (Num 7), 0)], rx_readyState = RS_open,
       effects =
         [Unsubscribe 1,
          Respond (ResultResponse (JNumber (Num 7)) JUndefined ResultStopped),
          OnError (TRPCError BAD_REQUEST (Some ''Duplicate id 7'') None)
            (Some Subscription) (Some ''testSubscription'') testSubscription_input,
          Respond (ErrorResponse (JNumber (Num 7)) JUndefined
            (ErrorShape (TRPCError BAD_REQUEST (Some ''Duplicate id 7'') None)
               (Some Subscription) (Some ''testSubscription'') testSubscription_input))]\<rparr>)
   \<and> handleRequest appRouter
       (RequestMessage (JNumber (Num 7)) JUndefined Subscription testSubscription_input
          ''testSubscription'')
       handler_init =
     (None,
      \<lparr>clientSubscriptions = [(JNumber (Num 7), 1)], rx_readyState = RS_open,
       effects = [Respond (ResultResponse (JNumber (Num 7)) JUndefined ResultStarted)]\<rparr>)"
proof -
  have c: "ctxPromise appRouter = None"
    by (simp add: appRouter_def)
  have p: "callProcedure appRouter ''testSubscription'' testSubscription_input Subscription =
      Returned (Observable 1 [])"
    by (simp add: appRouter_def)
  have n: "JNumber (Num 7) \<noteq> JNull"
    by simp
  have o1: "rx_readyState (handler_subscribed RS_open) = RS_open"
    by (simp add: handler_subscribed_def)
  have o2: "rx_readyState handler_init = RS_open"
    by (simp add: handler_init_def)
  have seven: "Number_toString 7 = ''7''"
    by code_simp
  show ?thesis
    using duplicate_subscription_id [OF n c p o1, of JUndefined]
      duplicate_subscription_id [OF n c p o2, of JUndefined] c p o1 o2
    by (simp add: handler_subscribed_def handler_init_def Map_has_def Map_get_def Map_set_def
        seven Let_def)
qed

section \<open>Properties of the caller\<close>

subsection \<open>The fixtures, evaluated\<close>

lemma key_1: "Number_toString 1 = ''1''"
  by (simp add: Number_toString_def decimal.simps digit_char_def)

lemma key_2: "Number_toString 2 = ''2''"
  by (simp add: Number_toString_def decimal.simps digit_char_def)

lemma open_client_eq:
  "open_client = \<lparr>opts_dataChannel = 0, readyState = (\<lambda>c. RS_open), outgoing = [],
     pendingRequests = [], dispatchTimer = True, state = Open, activeConnection = 0, trace = []\<rparr>"
  by (simp add: open_client_def createDataChannelClient_def onOpen_def dispatch_def)

lemma query_queued_eq:
  "query_queued = \<lparr>opts_dataChannel = 0, readyState = (\<lambda>c. RS_open),
     outgoing = [RequestMessage (JNumber (Num 1)) JUndefined Query
        (JObject [(''id'', JString ''world'')]) ''testQuery''],
     pendingRequests = [(''1'', \<lparr>req_dataChannel = 0, req_type = Query, req_callbacks = 5,
        req_op = testQuery_op\<rparr>)],
     dispatchTimer = True, state = Open, activeConnection = 0, trace = []\<rparr>"
  by (simp add: query_queued_def open_client_eq request_def dispatch_def key_1 testQuery_op_def
      Object_set_def)

lemma query_in_flight_eq:
  "query_in_flight = \<lparr>opts_dataChannel = 0, readyState = (\<lambda>c. RS_open), outgoing = [],
     pendingRequests = [(''1'', \<lparr>req_dataChannel = 0, req_type = Query, req_callbacks = 5,
        req_op = testQuery_op\<rparr>)],
     dispatchTimer = False, state = Open, activeConnection = 0,
     trace = [Send 0 (SingleFrame (RequestMessage (JNumber (Num 1)) JUndefined Query
        (JObject [(''id'', JString ''world'')]) ''testQuery''))]\<rparr>"
  by (simp add: query_in_flight_def query_queued_eq dispatchTimer_callback_def)

lemma both_queued_eq:
  "both_queued = \<lparr>opts_dataChannel = 0, readyState = (\<lambda>c. RS_open),
     outgoing = [RequestMessage (JNumber (Num 2)) JUndefined Subscription testSubscription_input
          ''testSubscription'',
        RequestMessage (JNumber (Num 1)) JUndefined Query
          (JObject [(''id'', JString ''world'')]) ''testQuery''],
     pendingRequests = [(''1'', \<lparr>req_dataChannel = 0, req_type = Query, req_callbacks = 5,
          req_op = testQuery_op\<rparr>),
        (''2'', \<lparr>req_dataChannel = 0, req_type = Subscription, req_callbacks = 6,
          req_op = testSubscription_op\<rparr>)],
     dispatchTimer = True, state = Open, activeConnection = 0, trace = []\<rparr>"
proof -
  have "array_index ''1'' = Some 1" "array_index ''2'' = Some 2"
    by (simp_all add: array_index_def digit_value_def decimal.simps digit_char_def)
  then show ?thesis
    by (simp add: both_queued_def open_client_eq request_def dispatch_def key_1 key_2
        testQuery_op_def testSubscription_op_def Object_set_def key_before_def)
qed

lemma subscription_in_flight_eq:
  "subscription_in_flight = \<lparr>opts_dataChannel = 0, readyState = (\<lambda>c. RS_open), outgoing = [],
     pendingRequests = [(''2'', \<lparr>req_dataChannel = 0, req_type = Subscription, req_callbacks = 6,
        req_op = testSubscription_op\<rparr>)],
     dispatchTimer = False, state = Open, activeConnection = 0,
     trace = [Send 0 (SingleFrame (RequestMessage (JNumber (Num 2)) JUndefined Subscription
        testSubscription_input ''testSubscription''))]\<rparr>"
  by (simp add: subscription_in_flight_def open_client_eq request_def dispatch_def
      dispatchTimer_callback_def key_2 testSubscription_op_def Object_set_def)

lemma subscription_cancelled_eq:
  "subscription_cancelled = \<lparr>opts_dataChannel = 0, readyState = (\<lambda>c. RS_open), outgoing = [],
     pendingRequests = [],
     dispatchTimer = False, state = Open, activeConnection = 0,
     trace = [Send 0 (SingleFrame (RequestMessage (JNumber (Num 2)) JUndefined Subscription
        testSubscription_input ''testSubscription'')),
        CallbackComplete 6,
        Send 0 (SingleFrame (StopMessage (JNumber (Num 2)) JUndefined))]\<rparr>"
  by (simp add: subscription_cancelled_def subscription_in_flight_eq request_unsubscribe_def
      dispatch_def dispatchTimer_callback_def key_2 testSubscription_op_def Object_delete_def)

lemma query_closed_prematurely_eq:
  "query_closed_prematurely = \<lparr>opts_dataChannel = 0, readyState = (\<lambda>c. RS_closed), outgoing = [],
     pendingRequests = [], dispatchTimer = False, state = Open, activeConnection = 0,
     trace = [Send 0 (SingleFrame (RequestMessage (JNumber (Num 1)) JUndefined Query
        (JObject [(''id'', JString ''world'')]) ''testQuery'')),
        CallbackError 5 (Error ''DataChannel closed prematurely'')]\<rparr>"
proof -
  have t: "dispatchTimer query_queued"
    by (simp add: query_queued_eq)
  have "query_closed_prematurely =
      client_close_listener (query_in_flight\<lparr>readyState := \<lambda>c. RS_closed\<rparr>)"
    by (simp add: query_closed_prematurely_def client_run_def open_client_def [symmetric]
        query_queued_def [symmetric] query_in_flight_def t)
  then show ?thesis
    by (simp add: query_in_flight_eq client_close_listener_def Object_delete_def)
qed

lemma subscription_cancelled_closed_eq:
  "subscription_cancelled_closed = \<lparr>opts_dataChannel = 0, readyState = (\<lambda>c. RS_open),
     outgoing = [StopMessage (JNumber (Num 2)) JUndefined],
     pendingRequests = [], dispatchTimer = False, state = Closed, activeConnection = 0,
     trace = [Send 0 (SingleFrame (RequestMessage (JNumber (Num 2)) JUndefined Subscription
        testSubscription_input ''testSubscription'')),
        CallbackComplete 6]\<rparr>"
  by (simp add: subscription_cancelled_closed_def subscription_in_flight_eq close_def
      closeIfNoPending_def hasPendingRequests_def Object_values_def request_unsubscribe_def
      dispatch_def key_2 testSubscription_op_def Object_delete_def Let_def)

subsection \<open>The table of pending requests\<close>

lemma Object_delete_absent: "map_of ps k = None \<Longrightarrow> Object_delete ps k = ps"
  by (induction ps) (auto simp: Object_delete_def split: if_splits)

lemma map_of_Object_delete: "map_of (Object_delete ps k) k = None"
  by (induction ps) (auto simp: Object_delete_def)

lemma keys_insert_property: "fst ` set (insert_property ps k v) = insert k (fst ` set ps)"
  by (induction ps k v rule: insert_property.induct) (simp_all add: insert_commute)

lemma distinct_insert_property:
  "distinct (map fst ps) \<Longrightarrow> k \<notin> fst ` set ps \<Longrightarrow> distinct (map fst (insert_property ps k v))"
  by (induction ps k v rule: insert_property.induct) (auto simp: keys_insert_property)

lemma keys_update:
  "map fst (map (\<lambda>(k', v'). if k' = k then (k', f v') else (k', v')) ps) = map fst ps"
  by (induction ps) auto

lemma distinct_Object_set: "distinct (map fst ps) \<Longrightarrow> distinct (map fst (Object_set ps k v))"
proof (cases "map_of ps k")
  case None
  assume "distinct (map fst ps)"
  with None show ?thesis
    by (simp add: Object_set_def distinct_insert_property map_of_eq_None_iff)
next
  case (Some u)
  assume "distinct (map fst ps)"
  with Some show ?thesis
    using keys_update [of k "\<lambda>v'. v" ps] by (simp add: Object_set_def del: map_map)
qed

lemma distinct_Object_delete: "distinct (map fst ps) \<Longrightarrow> distinct (map fst (Object_delete ps k))"
  by (simp add: Object_delete_def distinct_map_filter)

lemma map_of_insert_property: "map_of ps k = None \<Longrightarrow> map_of (insert_property ps k v) k = Some v"
  by (induction ps k v rule: insert_property.induct) (auto split: if_splits)

lemma map_of_update:
  "map_of ps k = Some u \<Longrightarrow>
   map_of (map (\<lambda>(k', v'). if k' = k then (k', v) else (k', v')) ps) k = Some v"
  by (induction ps) (auto split: if_splits)

lemma map_of_Object_set: "map_of (Object_set ps k v) k = Some v"
  by (auto simp: Object_set_def map_of_insert_property map_of_update)

subsection \<open>What each operation leaves alone\<close>

lemma closeIfNoPending_fields:
  "pendingRequests (closeIfNoPending c s) = pendingRequests s"
  "outgoing (closeIfNoPending c s) = outgoing s"
  "state (closeIfNoPending c s) = state s"
  "opts_dataChannel (closeIfNoPending c s) = opts_dataChannel s"
  "activeConnection (closeIfNoPending c s) = activeConnection s"
  "dispatchTimer (closeIfNoPending c s) = dispatchTimer s"
  "readyState (closeIfNoPending c s) = readyState s"
  "filter is_callback (trace (closeIfNoPending c s)) = filter is_callback (trace s)"
  by (simp_all add: closeIfNoPending_def)

lemma unsubscribe_fields:
  "pendingRequests (request_unsubscribe op s) =
     Object_delete (pendingRequests s) (ToString (JNumber (Num (op_id op))))"
  "outgoing (request_unsubscribe op s) =
     filter (\<lambda>msg. msg_id msg \<noteq> JNumber (Num (op_id op))) (outgoing s) @
     (if readyState s (activeConnection s) = RS_open \<and> op_type op = Subscription
      then [StopMessage (JNumber (Num (op_id op))) JUndefined] else [])"
  "trace (request_unsubscribe op s) = trace s @
     (case map_of (pendingRequests s) (ToString (JNumber (Num (op_id op)))) of
        None \<Rightarrow> [] | Some req \<Rightarrow> [CallbackComplete (req_callbacks req)])"
  "dispatchTimer (request_unsubscribe op s) =
     (if readyState s (activeConnection s) = RS_open \<and> op_type op = Subscription \<and> state s = Open
      then True else dispatchTimer s)"
  "state (request_unsubscribe op s) = state s"
  "opts_dataChannel (request_unsubscribe op s) = opts_dataChannel s"
  "activeConnection (request_unsubscribe op s) = activeConnection s"
  "readyState (request_unsubscribe op s) = readyState s"
  "link.more (request_unsubscribe op s) = link.more s"
  by (simp_all add: request_unsubscribe_def Let_def dispatch_def split: option.splits)

lemma handle_fixed:
  "state (client_message_handle msg s) = state s
   \<and> opts_dataChannel (client_message_handle msg s) = opts_dataChannel s
   \<and> activeConnection (client_message_handle msg s) = activeConnection s"
  by (auto simp: client_message_handle_def handleIncomingRequest_def handleIncomingResponse_def
      closeIfNoPending_fields Let_def split: incoming_message.splits option.splits)

lemma close_loop_fixed:
  "state (close_loop es s) = state s \<and> opts_dataChannel (close_loop es s) = opts_dataChannel s
   \<and> activeConnection (close_loop es s) = activeConnection s
   \<and> outgoing (close_loop es s) = outgoing s"
  by (induction es s rule: close_loop.induct) auto

text \<open>What \<^verbatim>\<open>request\<close> stores under the id of the operation.\<close>

lemma request_pending:
  "map_of (pendingRequests (request op cb s)) (ToString (JNumber (Num (op_id op)))) =
     Some \<lparr>req_dataChannel = activeConnection s, req_type = op_type op, req_callbacks = cb,
           req_op = op\<rparr>"
  by (simp add: request_def dispatch_def Let_def map_of_Object_set)

subsection \<open>The close loop\<close>

lemma close_loop_trace:
  "trace (close_loop es s) = trace s @
     map (\<lambda>(key, req). if state s = Closed then CallbackComplete (req_callbacks req)
                        else CallbackError (req_callbacks req) (Error ''DataChannel closed prematurely''))
       (filter (\<lambda>(key, req). req_dataChannel req = opts_dataChannel s) es)"
  by (induction es s rule: close_loop.induct) auto

lemma close_loop_pending:
  "pendingRequests (close_loop es s) =
     filter (\<lambda>(key, req). key \<notin> fst ` set (filter (\<lambda>(key, req). req_dataChannel req = opts_dataChannel s) es))
       (pendingRequests s)"
proof (induction es s rule: close_loop.induct)
  case (1 s)
  show ?case by simp
next
  case (2 key req entries s)
  show ?case
  proof (cases "req_dataChannel req = opts_dataChannel s")
    case False
    then show ?thesis using 2 by simp
  next
    case True
    then show ?thesis
      using 2 by (cases "state s = Closed") (auto simp: Object_delete_def intro!: filter_cong)
  qed
qed

lemma owned_keys_distinct:
  assumes "distinct (map fst ps)"
  shows "filter (\<lambda>(key, req). key \<notin> fst ` set (filter (\<lambda>(key, req). P req) ps)) ps =
         filter (\<lambda>(key, req). \<not> P req) ps"
proof (rule filter_cong [OF refl])
  fix x assume x: "x \<in> set ps"
  obtain k r where kr: "x = (k, r)" by (cases x)
  have "k \<in> fst ` set (filter (\<lambda>(key, req). P req) ps) \<longleftrightarrow> P r"
  proof
    assume "k \<in> fst ` set (filter (\<lambda>(key, req). P req) ps)"
    then obtain r' where r': "(k, r') \<in> set ps" "P r'" by auto
    with assms x kr have "r' = r" by (meson eq_key_imp_eq_value)
    with r' show "P r" by simp
  next
    assume "P r"
    with x kr show "k \<in> fst ` set (filter (\<lambda>(key, req). P req) ps)" by force
  qed
  then show "(case x of (key, req) \<Rightarrow> key \<notin> fst ` set (filter (\<lambda>(key, req). P req) ps)) =
             (case x of (key, req) \<Rightarrow> \<not> P req)"
    by (simp add: kr)
qed

lemma close_listener_owned:
  assumes "distinct (map fst (pendingRequests s))"
  shows "pendingRequests (client_close_listener s) =
           filter (\<lambda>(key, req). req_dataChannel req \<noteq> opts_dataChannel s) (pendingRequests s)
       \<and> trace (client_close_listener s) = trace s @
           map (\<lambda>(key, req). if state s = Closed then CallbackComplete (req_callbacks req)
                  else CallbackError (req_callbacks req) (Error ''DataChannel closed prematurely''))
             (filter (\<lambda>(key, req). req_dataChannel req = opts_dataChannel s) (pendingRequests s))"
  using owned_keys_distinct [OF assms, of "\<lambda>req. req_dataChannel req = opts_dataChannel s"]
  by (simp add: client_close_listener_def close_loop_trace close_loop_pending)

subsection \<open>Every run keeps the invariant\<close>

lemma values_insert_property: "snd ` set (insert_property ps k v) = insert v (snd ` set ps)"
  by (induction ps k v rule: insert_property.induct) (simp_all add: insert_commute)

lemma values_Object_set: "snd ` set (Object_set ps k v) \<subseteq> insert v (snd ` set ps)"
  by (auto simp: Object_set_def values_insert_property split: if_splits)

lemma set_Object_delete: "set (Object_delete ps k) \<subseteq> set ps"
  by (auto simp: Object_delete_def)

lemma inv_closeIfNoPending: "client_inv s \<Longrightarrow> client_inv (closeIfNoPending c s)"
  by (simp add: client_inv_def closeIfNoPending_def)

lemma inv_created: "client_inv (createDataChannelClient dc rs)"
  by (simp add: client_inv_def createDataChannelClient_def onOpen_def dispatch_def Let_def
      Object_values_def)

lemma inv_onOpen: "client_inv s \<Longrightarrow> client_inv (onOpen s)"
  by (simp add: client_inv_def onOpen_def dispatch_def)

lemma inv_timer: "client_inv s \<Longrightarrow> client_inv (dispatchTimer_callback s)"
  by (simp add: client_inv_def dispatchTimer_callback_def Let_def)

lemma inv_request:
  assumes "client_inv s"
  shows "client_inv (request op cb s)"
proof -
  let ?new = "\<lparr>req_dataChannel = activeConnection s, req_type = op_type op,
      req_callbacks = cb, req_op = op\<rparr>"
  let ?ps = "Object_set (pendingRequests s) (ToString (JNumber (Num (op_id op)))) ?new"
  have p: "pendingRequests (request op cb s) = ?ps"
    and a: "activeConnection (request op cb s) = activeConnection s"
    and o: "opts_dataChannel (request op cb s) = opts_dataChannel s"
    by (simp_all add: request_def dispatch_def Let_def)
  have old: "\<forall>r \<in> snd ` set (pendingRequests s). req_dataChannel r = activeConnection s"
    using assms by (simp add: client_inv_def list_all_iff Object_values_def)
  have "\<forall>r \<in> snd ` set ?ps. req_dataChannel r = activeConnection s"
  proof
    fix r assume "r \<in> snd ` set ?ps"
    with values_Object_set [of "pendingRequests s" "ToString (JNumber (Num (op_id op)))" ?new]
    have "r = ?new \<or> r \<in> snd ` set (pendingRequests s)"
      by blast
    with old show "req_dataChannel r = activeConnection s"
      by auto
  qed
  moreover have "distinct (map fst ?ps)"
    using assms by (simp add: client_inv_def distinct_Object_set)
  moreover have "opts_dataChannel s = activeConnection s"
    using assms by (simp add: client_inv_def)
  ultimately show ?thesis
    unfolding client_inv_def p a o list_all_iff Object_values_def by simp
qed

lemma inv_unsubscribe:
  assumes "client_inv s"
  shows "client_inv (request_unsubscribe op s)"
proof -
  let ?ps = "Object_delete (pendingRequests s) (ToString (JNumber (Num (op_id op))))"
  have old: "\<forall>r \<in> snd ` set (pendingRequests s). req_dataChannel r = activeConnection s"
    using assms by (simp add: client_inv_def list_all_iff Object_values_def)
  have "\<forall>r \<in> snd ` set ?ps. req_dataChannel r = activeConnection s"
    using old set_Object_delete [of "pendingRequests s" "ToString (JNumber (Num (op_id op)))"]
    by blast
  moreover have "distinct (map fst ?ps)"
    using assms by (simp add: client_inv_def distinct_Object_delete)
  moreover have "opts_dataChannel s = activeConnection s"
    using assms by (simp add: client_inv_def)
  ultimately show ?thesis
    unfolding client_inv_def unsubscribe_fields list_all_iff Object_values_def by simp
qed

lemma inv_close: "client_inv s \<Longrightarrow> client_inv (close s)"
  by (simp add: client_inv_def close_def closeIfNoPending_def Let_def)

lemma response_on_bound_request:
  assumes "client_inv s"
    and "resp_id data \<noteq> JNull"
    and "map_of (pendingRequests s) (ToString (resp_id data)) = Some req"
  shows "handleIncomingResponse data s =
           s\<lparr>trace := trace s @ CallbackNext (req_callbacks req) data #
                (if is_stopped data then [CallbackComplete (req_callbacks req)] else [])\<rparr>"
proof -
  from assms(3) have "(ToString (resp_id data), req) \<in> set (pendingRequests s)"
    by (rule map_of_SomeD)
  with assms(1) have "req_dataChannel req = activeConnection s"
    by (force simp: client_inv_def list_all_iff Object_values_def)
  with assms show ?thesis
    by (simp add: handleIncomingResponse_def Let_def client_inv_def)
qed

lemma response_keeps_table:
  assumes "client_inv s"
  shows "pendingRequests (handleIncomingResponse data s) = pendingRequests s"
proof (cases "resp_id data \<noteq> JNull \<and> map_of (pendingRequests s) (ToString (resp_id data)) \<noteq> None")
  case True
  then obtain req where "map_of (pendingRequests s) (ToString (resp_id data)) = Some req"
    by auto
  with True assms show ?thesis
    by (simp add: response_on_bound_request)
next
  case False
  then show ?thesis
    by (auto simp: handleIncomingResponse_def)
qed

lemma inv_handle: "client_inv s \<Longrightarrow> client_inv (client_message_handle msg s)"
proof (cases msg)
  case (IncomingRequest m)
  assume "client_inv s"
  then show ?thesis
    by (simp add: IncomingRequest client_message_handle_def handleIncomingRequest_def
        inv_closeIfNoPending)
next
  case (IncomingResponse data)
  assume i: "client_inv s"
  have "pendingRequests (client_message_handle msg s) = pendingRequests s"
    by (simp add: IncomingResponse client_message_handle_def response_keeps_table [OF i])
  with i show ?thesis
    using handle_fixed [of msg s] by (simp add: client_inv_def)
qed

lemma inv_message: "client_inv s \<Longrightarrow> client_inv (client_message_listener msg s)"
  by (simp add: client_message_listener_def Let_def inv_handle inv_closeIfNoPending)

lemma inv_close_listener: "client_inv s \<Longrightarrow> client_inv (client_close_listener s)"
  using close_loop_fixed [of "pendingRequests s" s]
  by (auto simp: client_inv_def client_close_listener_def close_loop_pending distinct_map_filter
      Object_values_def list_all_iff)

lemma inv_step: "client_inv s \<Longrightarrow> client_inv (client_step s e)"
  by (cases e)
    (simp_all add: inv_onOpen inv_message inv_close_listener inv_timer inv_request
      inv_unsubscribe inv_close, simp add: client_inv_def)

lemma inv_foldl: "client_inv s \<Longrightarrow> client_inv (foldl client_step s es)"
  by (induction es arbitrary: s) (simp_all add: inv_step)

lemma inv_run: "client_inv (client_run dc rs es)"
  by (simp add: client_run_def inv_foldl inv_created)

subsection \<open>Responses\<close>




text \<open>
  C10. A response whose id is null, or is the id of no pending request, is ignored:
  \<^verbatim>\<open>handleIncomingResponse\<close> returns the state it was given, and after the whole listener
  no callback has been called and the table and the outgoing queue are as before.
\<close>

theorem unmatched_response_is_ignored:
  assumes "resp_id data = JNull \<or> map_of (pendingRequests s) (ToString (resp_id data)) = None"
  shows "handleIncomingResponse data s = s
       \<and> filter is_callback (trace (client_message_listener (IncomingResponse data) s)) =
           filter is_callback (trace s)
       \<and> pendingRequests (client_message_listener (IncomingResponse data) s) = pendingRequests s
       \<and> outgoing (client_message_listener (IncomingResponse data) s) = outgoing s"
proof -
  from assms have "handleIncomingResponse data s = s"
    by (auto simp: handleIncomingResponse_def)
  then show ?thesis
    by (simp add: client_message_listener_def client_message_handle_def closeIfNoPending_fields)
qed

theorem unmatched_response_is_ignored_witness:
  "resp_id parse_error_report = JNull
   \<and> handleIncomingResponse parse_error_report query_in_flight = query_in_flight
   \<and> client_message_listener (IncomingResponse parse_error_report) query_in_flight = query_in_flight
   \<and> map_of (pendingRequests query_in_flight) (ToString (resp_id stopped_response)) = None
   \<and> client_message_listener (IncomingResponse stopped_response) query_in_flight = query_in_flight"
proof -
  have n: "resp_id parse_error_report = JNull"
    by (simp add: parse_error_report_def)
  have m: "map_of (pendingRequests query_in_flight) (ToString (resp_id stopped_response)) = None"
    by (simp add: query_in_flight_eq stopped_response_def key_2)
  show ?thesis
    using unmatched_response_is_ignored [of parse_error_report query_in_flight]
      unmatched_response_is_ignored [of stopped_response query_in_flight] n m
    by (simp add: client_message_listener_def client_message_handle_def query_in_flight_eq)
qed

subsection \<open>The close of the channel\<close>

text \<open>
  C4. In the state after any run, when the channel fires \<^verbatim>\<open>close\<close>: the pending requests
  made on it are removed from the table and no other is; each of them, in the order of the
  table, has one callback called, \<^verbatim>\<open>complete\<close> if the state is closed and else \<^verbatim>\<open>error\<close>
  with the error "DataChannel closed prematurely"; nothing else is added to the trace. The
  requests made on the channel are all the pending requests, so none is left without its
  callback.
\<close>

theorem close_listener_settles_every_pending_request:
  "(let s = client_run dc rs es;
        owned = filter (\<lambda>(key, req). req_dataChannel req = opts_dataChannel s) (pendingRequests s)
    in pendingRequests (client_close_listener s) =
         filter (\<lambda>(key, req). req_dataChannel req \<noteq> opts_dataChannel s) (pendingRequests s)
       \<and> trace (client_close_listener s) = trace s @
           map (\<lambda>(key, req). if state s = Closed then CallbackComplete (req_callbacks req)
                  else CallbackError (req_callbacks req) (Error ''DataChannel closed prematurely''))
             owned
       \<and> owned = pendingRequests s
       \<and> pendingRequests (client_close_listener s) = [])"
proof -
  let ?s = "client_run dc rs es"
  have i: "client_inv ?s" by (rule inv_run)
  then have d: "distinct (map fst (pendingRequests ?s))"
    and o: "list_all (\<lambda>req. req_dataChannel req = opts_dataChannel ?s)
        (Object_values (pendingRequests ?s))"
    by (simp_all add: client_inv_def)
  from o have all: "filter (\<lambda>(key, req). req_dataChannel req = opts_dataChannel ?s)
      (pendingRequests ?s) = pendingRequests ?s"
    by (auto simp: list_all_iff Object_values_def filter_id_conv)
  from o have none: "filter (\<lambda>(key, req). req_dataChannel req \<noteq> opts_dataChannel ?s)
      (pendingRequests ?s) = []"
    by (auto simp: list_all_iff Object_values_def filter_empty_conv)
  show ?thesis
    using close_listener_owned [OF d] by (simp add: all none Let_def)
qed

theorem close_listener_settles_every_pending_request_witness:
  "client_run 0 (\<lambda>c. RS_open) [Request testQuery_op 5, TimerFired] = query_in_flight
   \<and> pendingRequests (client_close_listener query_in_flight) = []
   \<and> trace (client_close_listener query_in_flight) =
       trace query_in_flight @ [CallbackError 5 (Error ''DataChannel closed prematurely'')]
   \<and> client_run 0 (\<lambda>c. RS_open) [Request testQuery_op 5, TimerFired, CloseClient] =
       close query_in_flight
   \<and> pendingRequests (client_close_listener (close query_in_flight)) = []
   \<and> trace (client_close_listener (close query_in_flight)) =
       trace query_in_flight @ [CallbackComplete 5]"
proof -
  have t: "dispatchTimer query_queued"
    by (simp add: query_queued_eq)
  have r1: "client_run 0 (\<lambda>c. RS_open) [Request testQuery_op 5, TimerFired] = query_in_flight"
    by (simp add: client_run_def open_client_def [symmetric] query_queued_def [symmetric]
        query_in_flight_def t)
  have r2: "client_run 0 (\<lambda>c. RS_open) [Request testQuery_op 5, TimerFired, CloseClient] =
      close query_in_flight"
    by (simp add: client_run_def open_client_def [symmetric] query_queued_def [symmetric]
        query_in_flight_def t)
  show ?thesis
    using close_listener_settles_every_pending_request
        [of 0 "\<lambda>c. RS_open" "[Request testQuery_op 5, TimerFired]"]
      close_listener_settles_every_pending_request
        [of 0 "\<lambda>c. RS_open" "[Request testQuery_op 5, TimerFired, CloseClient]"]
    unfolding r1 r2 using r1 r2
    by (simp add: Let_def query_in_flight_eq close_def closeIfNoPending_def
        hasPendingRequests_def Object_values_def)
qed

subsection \<open>The cancellation function\<close>

text \<open>
  C6, as the code has it. A call of the cancellation function takes the request out of
  the table, drops every queued envelope with its id, and puts a \<^verbatim>\<open>subscription.stop\<close>
  envelope for the id at the end of the queue exactly when the operation is a subscription
  and the \<^verbatim>\<open>readyState\<close> of the active connection is open. It calls \<^verbatim>\<open>complete\<close> on the
  callbacks of the request, and nothing else, when the request is still in the table at
  the call; when it is not (the close listener or an earlier call took it out) no
  callback is called.
\<close>

theorem first_unsubscribe:
  "pendingRequests (request_unsubscribe op s) =
     Object_delete (pendingRequests s) (ToString (JNumber (Num (op_id op))))
   \<and> map_of (pendingRequests (request_unsubscribe op s)) (ToString (JNumber (Num (op_id op)))) = None
   \<and> outgoing (request_unsubscribe op s) =
       filter (\<lambda>msg. msg_id msg \<noteq> JNumber (Num (op_id op))) (outgoing s) @
       (if op_type op = Subscription \<and> readyState s (activeConnection s) = RS_open
        then [StopMessage (JNumber (Num (op_id op))) JUndefined] else [])
   \<and> trace (request_unsubscribe op s) = trace s @
       (case map_of (pendingRequests s) (ToString (JNumber (Num (op_id op)))) of
          Some req \<Rightarrow> [CallbackComplete (req_callbacks req)]
        | None \<Rightarrow> [])"
  by (auto simp: unsubscribe_fields map_of_Object_delete split: option.splits)

theorem first_unsubscribe_witness:
  "pendingRequests (request_unsubscribe testSubscription_op subscription_in_flight) = []
   \<and> outgoing (request_unsubscribe testSubscription_op subscription_in_flight) =
       [StopMessage (JNumber (Num 2)) JUndefined]
   \<and> trace (request_unsubscribe testSubscription_op subscription_in_flight) =
       trace subscription_in_flight @ [CallbackComplete 6]
   \<and> pendingRequests (request_unsubscribe testQuery_op query_queued) = []
   \<and> outgoing (request_unsubscribe testQuery_op query_queued) = []
   \<and> trace (request_unsubscribe testQuery_op query_queued) = [CallbackComplete 5]
   \<and> trace (request_unsubscribe testQuery_op query_closed_prematurely) =
       trace query_closed_prematurely"
  using first_unsubscribe [of testSubscription_op subscription_in_flight]
    first_unsubscribe [of testQuery_op query_queued]
    first_unsubscribe [of testQuery_op query_closed_prematurely]
  by (simp add: subscription_in_flight_eq query_queued_eq query_closed_prematurely_eq
      testSubscription_op_def testQuery_op_def key_1 key_2 Object_delete_def)

text \<open>
  C6, as the specification states it, fails: a query is sent and the channel closes
  before the response. The close listener has taken the request out of the table and
  called \<^verbatim>\<open>error\<close>; the first call of the cancellation function then finds no callbacks and
  \<^verbatim>\<open>complete\<close> is not called.
\<close>

theorem first_unsubscribe_counterexample:
  "pendingRequests query_closed_prematurely = []
   \<and> trace query_closed_prematurely =
       [Send 0 (SingleFrame (RequestMessage (JNumber (Num 1)) JUndefined Query
          (JObject [(''id'', JString ''world'')]) ''testQuery'')),
        CallbackError 5 (Error ''DataChannel closed prematurely'')]
   \<and> pendingRequests (request_unsubscribe testQuery_op query_closed_prematurely) = []
   \<and> outgoing (request_unsubscribe testQuery_op query_closed_prematurely) = []
   \<and> trace (request_unsubscribe testQuery_op query_closed_prematurely) =
       [Send 0 (SingleFrame (RequestMessage (JNumber (Num 1)) JUndefined Query
          (JObject [(''id'', JString ''world'')]) ''testQuery'')),
        CallbackError 5 (Error ''DataChannel closed prematurely'')]"
  by (simp add: query_closed_prematurely_eq request_unsubscribe_def testQuery_op_def key_1
      Object_delete_def Let_def)

lemma unsubscribe_twice:
  "request_unsubscribe op (request_unsubscribe op s) = request_unsubscribe op s"
  by (rule link.equality)
    (simp_all add: unsubscribe_fields map_of_Object_delete Object_delete_absent)

text \<open>
  C5, as the code has it. A call of the cancellation function when the request is no
  longer in the table (as after the first call) calls no callback, sends nothing and
  leaves the table as it is. It drops the queued envelopes with the id, and if the
  operation is a subscription and the channel is open it puts a \<^verbatim>\<open>subscription.stop\<close>
  envelope at the end of the queue again; the flush is then scheduled if \<^verbatim>\<open>state\<close> is
  \<^verbatim>\<open>"open"\<close>, and the timer is left as it was if not. Nothing else changes. If the operation
  is not a subscription or the channel is not open, and no envelope with the id is
  queued, the state is unchanged. A call that follows another call at once leaves the
  state of the first.
\<close>

theorem repeated_unsubscribe:
  assumes "map_of (pendingRequests s) (ToString (JNumber (Num (op_id op)))) = None"
  shows "trace (request_unsubscribe op s) = trace s
       \<and> pendingRequests (request_unsubscribe op s) = pendingRequests s
       \<and> outgoing (request_unsubscribe op s) =
           filter (\<lambda>msg. msg_id msg \<noteq> JNumber (Num (op_id op))) (outgoing s) @
           (if op_type op = Subscription \<and> readyState s (activeConnection s) = RS_open
            then [StopMessage (JNumber (Num (op_id op))) JUndefined] else [])
       \<and> dispatchTimer (request_unsubscribe op s) =
           (if op_type op = Subscription \<and> readyState s (activeConnection s) = RS_open
               \<and> state s = Open
            then True else dispatchTimer s)
       \<and> request_unsubscribe op s =
           s\<lparr>outgoing :=
                filter (\<lambda>msg. msg_id msg \<noteq> JNumber (Num (op_id op))) (outgoing s) @
                (if op_type op = Subscription \<and> readyState s (activeConnection s) = RS_open
                 then [StopMessage (JNumber (Num (op_id op))) JUndefined] else []),
              dispatchTimer :=
                (if op_type op = Subscription \<and> readyState s (activeConnection s) = RS_open
                    \<and> state s = Open
                 then True else dispatchTimer s)\<rparr>
       \<and> ((op_type op \<noteq> Subscription \<or> readyState s (activeConnection s) \<noteq> RS_open)
            \<and> list_all (\<lambda>msg. msg_id msg \<noteq> JNumber (Num (op_id op))) (outgoing s)
          \<longrightarrow> request_unsubscribe op s = s)
       \<and> request_unsubscribe op (request_unsubscribe op s0) = request_unsubscribe op s0"
proof -
  have whole: "request_unsubscribe op s =
           s\<lparr>outgoing :=
                filter (\<lambda>msg. msg_id msg \<noteq> JNumber (Num (op_id op))) (outgoing s) @
                (if op_type op = Subscription \<and> readyState s (activeConnection s) = RS_open
                 then [StopMessage (JNumber (Num (op_id op))) JUndefined] else []),
              dispatchTimer :=
                (if op_type op = Subscription \<and> readyState s (activeConnection s) = RS_open
                    \<and> state s = Open
                 then True else dispatchTimer s)\<rparr>"
    using assms
    by (intro link.equality) (auto simp: unsubscribe_fields Object_delete_absent)
  have same: "request_unsubscribe op s = s"
    if "op_type op \<noteq> Subscription \<or> readyState s (activeConnection s) \<noteq> RS_open"
      and "list_all (\<lambda>msg. msg_id msg \<noteq> JNumber (Num (op_id op))) (outgoing s)"
    using that assms
    by (intro link.equality)
      (auto simp: unsubscribe_fields Object_delete_absent list_all_iff filter_id_conv)
  have fields: "trace (request_unsubscribe op s) = trace s
       \<and> pendingRequests (request_unsubscribe op s) = pendingRequests s
       \<and> outgoing (request_unsubscribe op s) =
           filter (\<lambda>msg. msg_id msg \<noteq> JNumber (Num (op_id op))) (outgoing s) @
           (if op_type op = Subscription \<and> readyState s (activeConnection s) = RS_open
            then [StopMessage (JNumber (Num (op_id op))) JUndefined] else [])
       \<and> dispatchTimer (request_unsubscribe op s) =
           (if op_type op = Subscription \<and> readyState s (activeConnection s) = RS_open
               \<and> state s = Open
            then True else dispatchTimer s)"
    using assms by (auto simp: unsubscribe_fields Object_delete_absent)
  from whole same fields unsubscribe_twice [of op s0] show ?thesis
    by blast
qed

theorem repeated_unsubscribe_witness:
  "map_of (pendingRequests subscription_cancelled) (ToString (JNumber (Num (op_id testQuery_op)))) = None
   \<and> request_unsubscribe testQuery_op subscription_cancelled = subscription_cancelled
   \<and> map_of (pendingRequests subscription_cancelled)
        (ToString (JNumber (Num (op_id testSubscription_op)))) = None
   \<and> trace (request_unsubscribe testSubscription_op subscription_cancelled) =
       trace subscription_cancelled
   \<and> outgoing (request_unsubscribe testSubscription_op subscription_cancelled) =
       [StopMessage (JNumber (Num 2)) JUndefined]
   \<and> dispatchTimer (request_unsubscribe testSubscription_op subscription_cancelled) = True
   \<and> map_of (pendingRequests subscription_cancelled_closed)
        (ToString (JNumber (Num (op_id testSubscription_op)))) = None
   \<and> outgoing (request_unsubscribe testSubscription_op subscription_cancelled_closed) =
       [StopMessage (JNumber (Num 2)) JUndefined]
   \<and> dispatchTimer (request_unsubscribe testSubscription_op subscription_cancelled_closed) = False"
proof -
  have q: "map_of (pendingRequests subscription_cancelled)
      (ToString (JNumber (Num (op_id testQuery_op)))) = None"
    by (simp add: subscription_cancelled_eq)
  have p: "map_of (pendingRequests subscription_cancelled)
      (ToString (JNumber (Num (op_id testSubscription_op)))) = None"
    by (simp add: subscription_cancelled_eq)
  have r: "map_of (pendingRequests subscription_cancelled_closed)
      (ToString (JNumber (Num (op_id testSubscription_op)))) = None"
    by (simp add: subscription_cancelled_closed_eq)
  show ?thesis
    using repeated_unsubscribe [OF q] repeated_unsubscribe [OF p] repeated_unsubscribe [OF r] p q r
    by (simp add: subscription_cancelled_eq subscription_cancelled_closed_eq
        testSubscription_op_def testQuery_op_def)
qed

text \<open>
  C5, as the specification states it, fails: the subscription was cancelled and the stop
  envelope sent; a second call of the cancellation function queues a stop envelope again
  and schedules a flush.
\<close>

theorem repeated_unsubscribe_counterexample:
  "pendingRequests subscription_cancelled = []
   \<and> outgoing subscription_cancelled = []
   \<and> dispatchTimer subscription_cancelled = False
   \<and> outgoing (request_unsubscribe testSubscription_op subscription_cancelled) =
       [StopMessage (JNumber (Num 2)) JUndefined]
   \<and> dispatchTimer (request_unsubscribe testSubscription_op subscription_cancelled) = True"
  by (simp add: subscription_cancelled_eq request_unsubscribe_def dispatch_def
      testSubscription_op_def Object_delete_def Let_def)

subsection \<open>Closing the client\<close>

lemma unsubscribe_never_closes:
  "filter is_close (trace (request_unsubscribe op s)) = filter is_close (trace s)"
  by (simp add: unsubscribe_fields split: option.splits)

text \<open>
  C7, as the code has it. \<^verbatim>\<open>close()\<close> sets the state to closed and closes the active
  connection at once exactly when no pending request is bound to it. After that, the
  check is made again at the end of the listener of every incoming message; the
  cancellation function never closes a channel.
\<close>

theorem close_then_recheck_on_message:
  "state (close s) = Closed
   \<and> trace (close s) = trace s @
       (if hasPendingRequests (activeConnection s) s then [] else [ChannelClose (activeConnection s)])
   \<and> (state s = Closed \<longrightarrow>
        trace (client_message_listener msg s) = trace (client_message_handle msg s) @
          (if hasPendingRequests (opts_dataChannel s) (client_message_handle msg s) then []
           else [ChannelClose (opts_dataChannel s)]))
   \<and> filter is_close (trace (request_unsubscribe op s)) = filter is_close (trace s)"
  by (simp add: close_def closeIfNoPending_def hasPendingRequests_def client_message_listener_def
      handle_fixed unsubscribe_never_closes Let_def)

theorem close_then_recheck_on_message_witness:
  "state (close query_in_flight) = Closed
   \<and> trace (close query_in_flight) = trace query_in_flight
   \<and> trace (close subscription_cancelled) = trace subscription_cancelled @ [ChannelClose 0]
   \<and> state (request_unsubscribe testQuery_op (close query_in_flight)) = Closed
   \<and> trace (client_message_listener (IncomingResponse parse_error_report)
        (request_unsubscribe testQuery_op (close query_in_flight))) =
       trace query_in_flight @ [CallbackComplete 5, ChannelClose 0]"
proof -
  have c: "state (request_unsubscribe testQuery_op (close query_in_flight)) = Closed"
    by (simp add: unsubscribe_fields close_def closeIfNoPending_def Let_def)
  show ?thesis
    using close_then_recheck_on_message [of query_in_flight]
      close_then_recheck_on_message [of subscription_cancelled]
      close_then_recheck_on_message [of "request_unsubscribe testQuery_op (close query_in_flight)"
        "IncomingResponse parse_error_report"] c
    by (simp add: query_in_flight_eq subscription_cancelled_eq hasPendingRequests_def
        Object_values_def client_message_handle_def handleIncomingResponse_def
        parse_error_report_def unsubscribe_fields close_def closeIfNoPending_def Let_def
        testQuery_op_def key_1 Object_delete_def)
qed

text \<open>
  C7, as the specification states it, fails: the client is closed while the query is
  pending, then the query is cancelled. The table is empty and the state closed, yet the
  trace holds no close of the channel: the cancellation did not make the check.
\<close>

theorem unsubscribe_after_close_counterexample:
  "state (request_unsubscribe testQuery_op (close query_in_flight)) = Closed
   \<and> pendingRequests (request_unsubscribe testQuery_op (close query_in_flight)) = []
   \<and> trace (request_unsubscribe testQuery_op (close query_in_flight)) =
       [Send 0 (SingleFrame (RequestMessage (JNumber (Num 1)) JUndefined Query
          (JObject [(''id'', JString ''world'')]) ''testQuery'')),
        CallbackComplete 5]"
  by (simp add: request_unsubscribe_def close_def closeIfNoPending_def hasPendingRequests_def
      Object_values_def query_in_flight_eq testQuery_op_def key_1 Object_delete_def Let_def)

subsection \<open>The flush\<close>

text \<open>
  C8. When the timer fires: if the \<^verbatim>\<open>readyState\<close> of the active connection is not open,
  nothing is sent and the queue is kept as it is; if it is open, the queue is empty
  afterwards, a queue of one envelope was sent as that envelope alone, and a queue of
  more than one was sent as one array frame of the envelopes in their order.
\<close>

theorem flush_policy:
  "(readyState s (activeConnection s) \<noteq> RS_open \<longrightarrow>
      trace (dispatchTimer_callback s) = trace s \<and> outgoing (dispatchTimer_callback s) = outgoing s)
   \<and> (readyState s (activeConnection s) = RS_open \<longrightarrow>
      outgoing (dispatchTimer_callback s) = []
      \<and> (\<forall>m. outgoing s = [m] \<longrightarrow>
            trace (dispatchTimer_callback s) = trace s @ [Send (activeConnection s) (SingleFrame m)])
      \<and> (length (outgoing s) > 1 \<longrightarrow>
            trace (dispatchTimer_callback s) =
              trace s @ [Send (activeConnection s) (BatchFrame (outgoing s))]))"
  by (auto simp: dispatchTimer_callback_def Let_def)

theorem flush_policy_witness:
  "trace (dispatchTimer_callback query_queued) =
     [Send 0 (SingleFrame (RequestMessage (JNumber (Num 1)) JUndefined Query
        (JObject [(''id'', JString ''world'')]) ''testQuery''))]
   \<and> outgoing (dispatchTimer_callback query_queued) = []
   \<and> trace (dispatchTimer_callback both_queued) =
     [Send 0 (BatchFrame
        [RequestMessage (JNumber (Num 2)) JUndefined Subscription testSubscription_input
           ''testSubscription'',
         RequestMessage (JNumber (Num 1)) JUndefined Query
           (JObject [(''id'', JString ''world'')]) ''testQuery''])]
   \<and> outgoing (dispatchTimer_callback both_queued) = []
   \<and> trace (dispatchTimer_callback query_queued_closing) = []
   \<and> outgoing (dispatchTimer_callback query_queued_closing) =
       [RequestMessage (JNumber (Num 1)) JUndefined Query
          (JObject [(''id'', JString ''world'')]) ''testQuery'']"
  using flush_policy [of query_queued] flush_policy [of both_queued]
    flush_policy [of query_queued_closing]
  by (simp add: query_queued_eq both_queued_eq query_queued_closing_def)

end
